theory Spec2Isabelle
  imports Main "HOL-Library.Sublist" "HOL-Library.Monad_Syntax"
begin

section \<open>terrawrap: a shallow embedding of \<open>src/terrawrap.ts\<close>\<close>

text \<open>
  The program is a single TypeScript module run by Deno. Its top-level statements run in
  order: the working directory is resolved from the command line, the configuration file
  is searched upwards, the execution role is selected, the generated file is rendered and
  the wrapped binary is run between a write hook and a cleanup hook.

  Strings are \<open>string\<close> (lists of 8-bit characters); the model therefore covers
  arguments, paths and configuration values whose characters are single code units below
  256, each counted once by \<open>length\<close> as JavaScript's \<open>.length\<close> counts it.
  Diagnostic output of \<open>log\<close> (to standard output, when \<open>TERRAWRAP_LOG\<close> is
  \<open>true\<close>) is left out: it changes no value and no other effect.
\<close>

subsection \<open>Values of the parsed configuration\<close>

text \<open>
  \<open>parseYml\<close> returns an unchecked JavaScript value that the code only casts to
  \<open>ConfigInner\<close>. \<open>JOther t\<close> stands for any value that is neither a string, an
  array nor a plain object (a boolean, a number, a date), together with the text \<open>t\<close>
  that JavaScript's ToString gives for it. An object is a plain object as the parser
  builds it for a mapping: the list of its own properties, each holding a parsed value
  (never a function), with \<open>Object.prototype\<close> as its prototype.
\<close>

datatype jsval =
    JUndefined
  | JNull
  | JOther string
  | JStr string
  | JArr "jsval list"
  | JObj "(string \<times> jsval) list"

text \<open>\<open>const isValidString = (s) => typeof s == "string" && s.length > 0\<close>\<close>

fun isValidString :: "jsval \<Rightarrow> bool" where
  "isValidString (JStr s) = (s \<noteq> [])"
| "isValidString _ = False"

text \<open>
  Property access \<open>v?.name\<close> with optional chaining, for the property names the program
  uses (\<open>s3_backend\<close>, \<open>role_arn\<close>, \<open>region\<close>, \<open>bucket\<close>, \<open>dynamodb_table\<close>,
  \<open>execution\<close>, \<open>prefix\<close>, \<open>aws_execution_role\<close>): none of them is a property of a
  built-in prototype, so only an object that has the property itself yields a value, and
  everything else, \<open>null\<close> and \<open>undefined\<close> included, yields \<open>undefined\<close>.
\<close>

fun getProp :: "jsval \<Rightarrow> string \<Rightarrow> jsval" where
  "getProp (JObj fs) name = (case map_of fs name of Some v \<Rightarrow> v | None \<Rightarrow> JUndefined)"
| "getProp _ name = JUndefined"

fun isArray :: "jsval \<Rightarrow> bool" where
  "isArray (JArr xs) = True"
| "isArray _ = False"

text \<open>JavaScript's \<open>Array.prototype.join\<close> on texts that are already rendered.\<close>

fun joinWith :: "string \<Rightarrow> string list \<Rightarrow> string" where
  "joinWith sep [] = []"
| "joinWith sep [x] = x"
| "joinWith sep (x # y # ys) = x @ sep @ joinWith sep (y # ys)"

text \<open>
  ToString, which \<open>String.prototype.startsWith\<close> applies to its argument and a template
  literal applies to every interpolated value; \<open>None\<close> when it throws a TypeError.

  An object is converted by its \<open>toString\<close> method and then its \<open>valueOf\<close> method.
  With no property \<open>toString\<close> of its own the object inherits
  \<open>Object.prototype.toString\<close>, which gives \<open>[object Object]\<close>. A property
  \<open>toString\<close> of its own holds a parsed value, which is not callable, and is passed
  over; \<open>valueOf\<close>, its own (not callable) or the inherited one (which returns the
  object), gives no primitive value either, and the conversion throws. An array joins
  its elements with a comma, \<open>null\<close> and \<open>undefined\<close> elements as the empty text and
  every other element by ToString, and throws when one of them does.
\<close>

fun toStringJS :: "jsval \<Rightarrow> string option" where
  "toStringJS JUndefined = Some ''undefined''"
| "toStringJS JNull = Some ''null''"
| "toStringJS (JOther t) = Some t"
| "toStringJS (JStr s) = Some s"
| "toStringJS (JArr xs) =
     map_option (joinWith '','')
       (those (map (\<lambda>x. if x = JUndefined \<or> x = JNull then Some [] else toStringJS x) xs))"
| "toStringJS (JObj fs) =
     (if map_of fs ''toString'' \<noteq> None then None else Some ''[object Object]'')"

text \<open>\<open>key.startsWith(p)\<close>, the argument already converted by ToString.\<close>

fun startsWith :: "string \<Rightarrow> string \<Rightarrow> bool" where
  "startsWith s [] = True"
| "startsWith [] (p # ps) = False"
| "startsWith (c # cs) (p # ps) = (c = p \<and> startsWith cs ps)"

subsection \<open>Fatal errors\<close>

text \<open>
  \<open>panic(msg)\<close> prints \<open>msg\<close> on standard error and ends the process with exit code 1.
  A function that can panic returns \<open>fatal + 'a\<close>, \<open>Inl\<close> the panic.
\<close>

datatype fatal = Fatal (message: string) (exit_code: int)

definition panic :: "string \<Rightarrow> fatal + 'a" where
  "panic msg = Inl (Fatal msg 1)"

definition nl :: string where
  "nl = [CHR 0x0A]"

definition dq :: string where
  "dq = [CHR 0x22]"

subsection \<open>The working directory: \<open>-chdir\<close> recognition\<close>

text \<open>
  \<open>const chdirRe = /-?-chdir($|=(.*$))/\<close>, used with \<open>String.prototype.match\<close>: no
  flags, so the match is unanchored at its start, \<open>$\<close> matches only at the end of the
  argument and \<open>.\<close> matches any character but a line terminator. A match reports its
  second group: the text after \<open>=\<close>, or \<open>undefined\<close> (here \<open>None\<close>) when the
  argument ends right after \<open>-chdir\<close>.
\<close>

datatype re_match = NoMatch | Match (group2: "string option")

definition isLineTerminator :: "char \<Rightarrow> bool" where
  "isLineTerminator c = (c = CHR 0x0A \<or> c = CHR 0x0D)"

text \<open>A literal of the pattern at the start of the text: the text after it.\<close>

fun literal :: "string \<Rightarrow> string \<Rightarrow> string option" where
  "literal [] s = Some s"
| "literal (p # ps) [] = None"
| "literal (p # ps) (c # cs) = (if p = c then literal ps cs else None)"

text \<open>The group \<open>($|=(.*$))\<close>: the end of the text, or \<open>=\<close> and a rest of one line.\<close>

fun chdirRe_tail :: "string \<Rightarrow> re_match" where
  "chdirRe_tail [] = Match None"
| "chdirRe_tail (c # v) =
     (if c = CHR ''='' \<and> \<not> list_ex isLineTerminator v then Match (Some v) else NoMatch)"

definition chdirRe_literal :: "string \<Rightarrow> re_match" where
  "chdirRe_literal s = (case literal ''-chdir'' s of Some t \<Rightarrow> chdirRe_tail t | None \<Rightarrow> NoMatch)"

text \<open>
  A match attempt that starts at the head of the text: the greedy \<open>-?\<close> first takes a
  leading hyphen, and gives it back when the rest of the pattern then fails.
\<close>

definition chdirRe_at :: "string \<Rightarrow> re_match" where
  "chdirRe_at s =
     (case (case s of [] \<Rightarrow> NoMatch
                    | c # r \<Rightarrow> if c = CHR ''-'' then chdirRe_literal r else NoMatch) of
        Match g \<Rightarrow> Match g
      | NoMatch \<Rightarrow> chdirRe_literal s)"

text \<open>\<open>arg.match(chdirRe)\<close>: the attempt at the leftmost start position that succeeds.\<close>

fun chdirRe_match :: "string \<Rightarrow> re_match" where
  "chdirRe_match [] = chdirRe_at []"
| "chdirRe_match (c # cs) =
     (case chdirRe_at (c # cs) of Match g \<Rightarrow> Match g | NoMatch \<Rightarrow> chdirRe_match cs)"

text \<open>
  The loop of \<open>workingDir\<close> over \<open>Deno.args\<close>, with \<open>cwd\<close> as its state. When group 2
  is undefined, \<open>Deno.args[++i]\<close> takes the following argument (\<open>undefined\<close> past the
  end) and the loop's own \<open>i++\<close> then steps over it.
\<close>

fun chdirLoop :: "string list \<Rightarrow> string option \<Rightarrow> fatal + string option" where
  "chdirLoop [] cwd = Inr cwd"
| "chdirLoop (a # rest) cwd =
     (case chdirRe_match a of
        NoMatch \<Rightarrow> chdirLoop rest cwd
      | Match g \<Rightarrow>
          if cwd \<noteq> None then panic ''Invalid multiple -chdir option''
          else (case g of
                  Some v \<Rightarrow>
                    if isValidString (JStr v) then chdirLoop rest (Some v)
                    else panic ''Invalid -chdir option''
                | None \<Rightarrow>
                    (case rest of
                       [] \<Rightarrow> panic ''Invalid -chdir option''
                     | v # rest' \<Rightarrow>
                         if isValidString (JStr v) then chdirLoop rest' (Some v)
                         else panic ''Invalid -chdir option'')))"

subsection \<open>Paths: the POSIX functions of Deno's \<open>std/path\<close>\<close>

text \<open>
  Modelled from the library, which is not part of the sources: \<open>path.resolve\<close>,
  \<open>path.join\<close> and \<open>path.dirname\<close> are imported from
  \<open>deno.land/std@0.103.0/path\<close>. The definitions follow the POSIX variant of that
  library: \<open>dirname\<close> by its loop, \<open>resolve\<close>, \<open>normalize\<close> (here
  \<open>normalizePath\<close>) and \<open>join\<close> by their statements, and \<open>normalizeString\<close> by
  what its scan computes on the segments between separators (an empty segment and
  \<open>.\<close> are dropped, \<open>..\<close> removes the segment before it when there is one that is
  not \<open>..\<close>, and is kept only where the path may rise above its start).
\<close>

fun splitSlash :: "string \<Rightarrow> string list" where
  "splitSlash [] = [[]]"
| "splitSlash (c # cs) =
     (if c = CHR ''/'' then [] # splitSlash cs
      else (case splitSlash cs of [] \<Rightarrow> [[c]] | w # ws \<Rightarrow> (c # w) # ws))"

fun normSegments :: "bool \<Rightarrow> string list \<Rightarrow> string list \<Rightarrow> string list" where
  "normSegments allowAboveRoot res [] = res"
| "normSegments allowAboveRoot res (seg # segs) =
     (if seg = [] \<or> seg = ''.'' then normSegments allowAboveRoot res segs
      else if seg = ''..'' then
        (if res \<noteq> [] \<and> last res \<noteq> ''..'' then normSegments allowAboveRoot (butlast res) segs
         else if allowAboveRoot then normSegments allowAboveRoot (res @ [''..'']) segs
         else normSegments allowAboveRoot res segs)
      else normSegments allowAboveRoot (res @ [seg]) segs)"

definition normalizeString :: "string \<Rightarrow> bool \<Rightarrow> string" where
  "normalizeString p allowAboveRoot = joinWith ''/'' (normSegments allowAboveRoot [] (splitSlash p))"

definition isAbsolute :: "string \<Rightarrow> bool" where
  "isAbsolute p = (case p of [] \<Rightarrow> False | c # _ \<Rightarrow> c = CHR ''/'')"

text \<open>
  \<open>path.resolve(p)\<close> with one argument: \<open>p\<close>, and in front of it the process's
  current directory \<open>cwd\<close> when \<open>p\<close> is not absolute; empty texts are skipped.
\<close>

definition resolve :: "string \<Rightarrow> string \<Rightarrow> string" where
  "resolve cwd p =
     (let r1 = (if p = [] then [] else p @ ''/'');
          a1 = isAbsolute p;
          r2 = (if a1 \<or> cwd = [] then r1 else cwd @ ''/'' @ r1);
          a2 = (if a1 \<or> cwd = [] then a1 else isAbsolute cwd);
          res = normalizeString r2 (\<not> a2)
      in if a2 then (if res \<noteq> [] then ''/'' @ res else ''/'')
         else (if res \<noteq> [] then res else ''.''))"

definition normalizePath :: "string \<Rightarrow> string" where
  "normalizePath p =
     (if p = [] then ''.''
      else
        let a = isAbsolute p;
            trailingSeparator = (last p = CHR ''/'');
            r1 = normalizeString p (\<not> a);
            r2 = (if r1 = [] \<and> \<not> a then ''.'' else r1);
            r3 = (if r2 \<noteq> [] \<and> trailingSeparator then r2 @ ''/'' else r2)
        in if a then ''/'' @ r3 else r3)"

text \<open>\<open>path.join(a, b)\<close> with two arguments.\<close>

definition join :: "string \<Rightarrow> string \<Rightarrow> string" where
  "join a b =
     (let joined = (if a = [] then b else if b = [] then a else a @ ''/'' @ b)
      in if joined = [] then ''.'' else normalizePath joined)"

text \<open>
  The loop of \<open>dirname\<close>: \<open>i\<close> runs from the last index down to 1 and stops at the
  first separator that has a character other than a separator after it. \<open>dirname\<close>
  starts it at \<open>length p - 1\<close>, so every index it reads is within the text.
\<close>

fun dirnameEnd :: "string \<Rightarrow> nat \<Rightarrow> bool \<Rightarrow> nat option" where
  "dirnameEnd p 0 matchedSlash = None"
| "dirnameEnd p (Suc i) matchedSlash =
     (if p ! Suc i = CHR ''/'' then
        (if \<not> matchedSlash then Some (Suc i) else dirnameEnd p i matchedSlash)
      else dirnameEnd p i False)"

definition dirname :: "string \<Rightarrow> string" where
  "dirname p =
     (if p = [] then ''.''
      else
        let hasRoot = (hd p = CHR ''/'') in
        case dirnameEnd p (length p - 1) True of
          None \<Rightarrow> (if hasRoot then ''/'' else ''.'')
        | Some e \<Rightarrow> if hasRoot \<and> e = 1 then ''//'' else take e p)"

lemma dirnameEnd_bound:
  "dirnameEnd p n m = Some e \<Longrightarrow> 1 \<le> e \<and> e \<le> n \<and> (m \<longrightarrow> e < n)"
proof (induction n arbitrary: m)
  case 0
  then show ?case by simp
next
  case (Suc n)
  show ?case
  proof (cases "p ! Suc n = CHR ''/''")
    case True
    show ?thesis
    proof (cases m)
      case True
      with \<open>p ! Suc n = CHR ''/''\<close> Suc.prems have "dirnameEnd p n True = Some e" by simp
      from Suc.IH [OF this] True show ?thesis by simp
    next
      case False
      with \<open>p ! Suc n = CHR ''/''\<close> Suc.prems show ?thesis by simp
    qed
  next
    case False
    with Suc.prems have "dirnameEnd p n False = Some e" by simp
    from Suc.IH [OF this] show ?thesis by simp
  qed
qed

text \<open>The measure under which \<open>dirname\<close> descends until it reaches its fixed point.\<close>

definition dirMeasure :: "string \<Rightarrow> nat" where
  "dirMeasure d =
     (if d = [] then 4 else 2 * length d + (if d = ''.'' \<or> d = ''/'' then 0 else 1))"

lemma dirname_descends:
  assumes "dirname d \<noteq> d"
  shows "dirMeasure (dirname d) < dirMeasure d"
proof (cases "d = []")
  case True
  then show ?thesis by (simp add: dirname_def dirMeasure_def)
next
  case ne: False
  show ?thesis
  proof (cases "dirnameEnd d (length d - 1) True")
    case None
    with ne assms have "d \<noteq> ''.'' \<and> d \<noteq> ''/''"
      by (auto simp: dirname_def)
    moreover from None ne have "dirname d = ''/'' \<or> dirname d = ''.''"
      by (simp add: dirname_def)
    moreover from ne have "1 \<le> length d" by (cases d) simp_all
    ultimately show ?thesis by (auto simp: dirMeasure_def)
  next
    case (Some e)
    from dirnameEnd_bound [OF Some] have e: "1 \<le> e" "e < length d - 1" by simp_all
    then have len: "3 \<le> length d" by simp
    then have big: "dirMeasure d = 2 * length d + 1"
      by (auto simp: dirMeasure_def)
    show ?thesis
    proof (cases "hd d = CHR ''/'' \<and> e = 1")
      case True
      with Some ne have "dirname d = ''//''" by (simp add: dirname_def)
      with big len show ?thesis by (simp add: dirMeasure_def)
    next
      case False
      with Some ne have dn: "dirname d = take e d" by (auto simp: dirname_def)
      from e have "length (take e d) = e" by simp
      with e have "dirMeasure (take e d) \<le> 2 * e + 1"
        by (auto simp: dirMeasure_def)
      with dn big e show ?thesis by simp
    qed
  qed
qed

text \<open>
  \<open>function* allPossibleConfigLocation\<close>: the two candidate names in \<open>dir\<close>, then in
  its parent, until \<open>dirname\<close> returns its argument. The generator's values are listed
  in the order it yields them.
\<close>

function allPossibleConfigLocation :: "string \<Rightarrow> string list" where
  "allPossibleConfigLocation dir =
     join dir ''wrapper-config.yml'' # join dir ''wrapper-config.yaml'' #
     (let newDir = dirname dir in
      if newDir = dir then [] else allPossibleConfigLocation newDir)"
  by pat_completeness auto
termination
  by (relation "measure dirMeasure") (simp_all add: dirname_descends)

declare allPossibleConfigLocation.simps [simp del]

subsection \<open>The environment of a run\<close>

text \<open>
  What the process reads from its surroundings, each a parameter of the model:
  \<open>Deno.args\<close>, \<open>Deno.cwd()\<close>, \<open>Deno.env.get\<close>, the result of reading and parsing
  a file, of writing and of removing one, and of running the wrapped binary.
\<close>

text \<open>
  \<open>parseYml(await Deno.readTextFile(configFile))\<close>: the read throws
  \<open>Deno.errors.NotFound\<close>, or throws another error, or the parser throws; the two
  failures carry the text that the template literal of the panic gives for the error.
\<close>

datatype file_outcome = NotFound | ReadFailed string | ParseFailed string | Parsed jsval

text \<open>
  \<open>await Deno.run({ cmd }).status()\<close>: the call throws, or the status has a code and,
  when the process was ended by a signal, the signal.
\<close>

datatype run_outcome = RunRaises string | RunStatus int "int option"

record os =
  denoArgs :: "string list"
  denoCwd :: string
  envGet :: "string \<Rightarrow> string option"
  readYml :: "string \<Rightarrow> file_outcome"
  writeTextFile :: "string \<Rightarrow> string \<Rightarrow> string option"
  removeFile :: "string \<Rightarrow> string option"
  denoRun :: "string list \<Rightarrow> run_outcome"

text \<open>The effects of a run on its surroundings, in the order they happen.\<close>

datatype effect =
    ReadTextFile string
  | ConsoleError string
  | WriteTextFile string string
  | Remove string
  | Run "string list"

text \<open>\<open>const workingDir\<close>: the loop over the arguments, then \<open>path.resolve\<close>.\<close>

definition workingDir :: "os \<Rightarrow> fatal + string" where
  "workingDir os =
     (case chdirLoop (denoArgs os) None of
        Inl f \<Rightarrow> Inl f
      | Inr cwd \<Rightarrow>
          Inr (resolve (denoCwd os) (case cwd of None \<Rightarrow> denoCwd os | Some v \<Rightarrow> v)))"

subsection \<open>Loading the configuration\<close>

record Config =
  cfgFile :: string
  cfgWorkingDir :: string
  cfgKey :: string
  cfgConfig :: jsval

text \<open>The five checks of \<open>loadConfig\<close>, each pushing its message, in the source's order.\<close>

definition invalidMsg :: "string \<Rightarrow> string" where
  "invalidMsg field = ''Invalid '' @ dq @ field @ dq"

definition configErrors :: "jsval \<Rightarrow> string list" where
  "configErrors parsed =
     (if \<not> isValidString (getProp (getProp parsed ''s3_backend'') ''role_arn'')
      then [invalidMsg ''.s3_backend.role_arn''] else []) @
     (if \<not> isValidString (getProp (getProp parsed ''s3_backend'') ''region'')
      then [invalidMsg ''.s3_backend.region''] else []) @
     (if \<not> isValidString (getProp (getProp parsed ''s3_backend'') ''bucket'')
      then [invalidMsg ''.s3_backend.bucket''] else []) @
     (if \<not> isValidString (getProp (getProp parsed ''s3_backend'') ''dynamodb_table'')
      then [invalidMsg ''.s3_backend.dynamodb_table''] else []) @
     (if \<not> isArray (getProp parsed ''execution'')
      then [invalidMsg ''.execution''] else [])"

text \<open>
  The loop of \<open>loadConfig\<close> over the candidates: the files it reads, and its result.
  \<open>s.slice(n)\<close> is \<open>drop n s\<close>, the empty text when \<open>n\<close> is past the end.
\<close>

fun loadConfigLoop ::
  "os \<Rightarrow> string \<Rightarrow> string list \<Rightarrow> effect list \<times> (fatal + Config option)" where
  "loadConfigLoop os wd [] = ([], Inr None)"
| "loadConfigLoop os wd (configFile # rest) =
     (case readYml os configFile of
        NotFound \<Rightarrow>
          (case loadConfigLoop os wd rest of (es, r) \<Rightarrow> (ReadTextFile configFile # es, r))
      | ReadFailed e \<Rightarrow>
          ([ReadTextFile configFile], panic (''File: '' @ configFile @ nl @ e))
      | ParseFailed e \<Rightarrow>
          ([ReadTextFile configFile], panic (''File: '' @ configFile @ nl @ e))
      | Parsed parsed \<Rightarrow>
          (let errors = configErrors parsed in
           if length errors > 0 then
             ([ReadTextFile configFile],
              panic (''Config error: '' @ configFile @ nl @ joinWith nl errors))
           else
             ([ReadTextFile configFile],
              Inr (Some \<lparr> cfgFile = configFile,
                          cfgWorkingDir = wd,
                          cfgKey = drop (length (dirname configFile) + 1) wd,
                          cfgConfig = parsed \<rparr>))))"

definition loadConfig :: "os \<Rightarrow> string \<Rightarrow> effect list \<times> (fatal + Config option)" where
  "loadConfig os wd = loadConfigLoop os wd (allPossibleConfigLocation wd)"

subsection \<open>The execution role\<close>

text \<open>
  How the role resolution can end without a role: by \<open>panic\<close>, or by the TypeError
  that \<open>startsWith\<close> throws when its argument has no text, which nothing catches.
\<close>

datatype failure = Panicked fatal | TypeErrorThrown

text \<open>
  The loop over \<open>config.config.execution\<close> with \<open>executionRole\<close> as its state: a rule
  whose prefix (converted by ToString) starts the key assigns its role, and the loop
  breaks when the assigned value is a valid string.
\<close>

fun roleLoop :: "string \<Rightarrow> jsval list \<Rightarrow> jsval \<Rightarrow> jsval option" where
  "roleLoop k [] executionRole = Some executionRole"
| "roleLoop k (r # rest) executionRole =
     (case toStringJS (getProp r ''prefix'') of
        None \<Rightarrow> None
      | Some p \<Rightarrow>
          if startsWith k p then
            (let executionRole' = getProp r ''aws_execution_role'' in
             if isValidString executionRole' then Some executionRole'
             else roleLoop k rest executionRole')
          else roleLoop k rest executionRole)"

text \<open>The elements a \<open>for ... of\<close> visits; the value is an array once the checks passed.\<close>

fun elements :: "jsval \<Rightarrow> jsval list" where
  "elements (JArr xs) = xs"
| "elements _ = []"

text \<open>
  Lines 137 to 147: the loop from the empty text, then the check of its result. A value
  that passes \<open>isValidString\<close> is a string, and the role is that string (so the last
  branch is never taken).
\<close>

definition executionRole :: "string \<Rightarrow> string \<Rightarrow> jsval list \<Rightarrow> failure + string" where
  "executionRole file k rules =
     (case roleLoop k rules (JStr []) of
        None \<Rightarrow> Inl TypeErrorThrown
      | Some r \<Rightarrow>
          (let noRole =
                 Inl (Panicked (Fatal (''No execution role is found in '' @ file @ '' for key '' @ k) 1))
           in if \<not> isValidString r then noRole
              else (case r of JStr role \<Rightarrow> Inr role | _ \<Rightarrow> noRole)))"

subsection \<open>The generated file\<close>

text \<open>
  The template literal \<open>generatedContent\<close>, line by line; \<open>backend\<close> is
  \<open>config.config.s3_backend\<close>. Each interpolated field of \<open>backend\<close> is converted
  by ToString, and the literal has no value when a conversion throws; the key and the
  role are strings.
\<close>

definition generatedContent :: "jsval \<Rightarrow> string \<Rightarrow> string \<Rightarrow> string option" where
  "generatedContent backend k role = do {
     role_arn \<leftarrow> toStringJS (getProp backend ''role_arn'');
     region \<leftarrow> toStringJS (getProp backend ''region'');
     bucket \<leftarrow> toStringJS (getProp backend ''bucket'');
     dynamodb_table \<leftarrow> toStringJS (getProp backend ''dynamodb_table'');
     Some (
     ''# THIS FILE IS GENERATED, DO NOT EDIT, DO NOT COMMIT'' @ nl @
     nl @
     ''terraform {'' @ nl @
     ''  backend '' @ dq @ ''s3'' @ dq @ '' {'' @ nl @
     ''    role_arn       = '' @ dq @ role_arn @ dq @ nl @
     ''    region         = '' @ dq @ region @ dq @ nl @
     ''    bucket         = '' @ dq @ bucket @ dq @ nl @
     ''    dynamodb_table = '' @ dq @ dynamodb_table @ dq @ nl @
     ''    key            = '' @ dq @ k @ dq @ nl @
     ''  }'' @ nl @
     ''}'' @ nl @
     nl @
     ''locals {'' @ nl @
     ''  generated = {'' @ nl @
     ''    state_key          = '' @ dq @ k @ dq @ nl @
     ''    aws_execution_role = '' @ dq @ role @ dq @ nl @
     ''    remote_state = {'' @ nl @
     ''      backend = '' @ dq @ ''s3'' @ dq @ nl @
     ''      config = {'' @ nl @
     ''        role_arn       = '' @ dq @ role_arn @ dq @ nl @
     ''        region         = '' @ dq @ region @ dq @ nl @
     ''        bucket         = '' @ dq @ bucket @ dq @ nl @
     ''        dynamodb_table = '' @ dq @ dynamodb_table @ dq @ nl @
     ''      }'' @ nl @
     ''    }'' @ nl @
     ''  }'' @ nl @
     ''}'' @ nl)
   }"

subsection \<open>Running the wrapped binary\<close>

text \<open>
  A hook, as \<open>terraform\<close> sees it: the effects it performs, and the error it throws if
  it does not complete. The promise \<open>terraform\<close> returns is fulfilled with a number or
  rejected with an error.
\<close>

type_synonym hook = "effect list \<times> string option"

datatype completion = Returns int | Throws string

text \<open>The \<open>try\<close> block of \<open>terraform\<close>.\<close>

definition terraformTry :: "os \<Rightarrow> hook option \<Rightarrow> effect list \<times> completion" where
  "terraformTry os before =
     (case (case before of None \<Rightarrow> ([], None) | Some b \<Rightarrow> b) of
        (eb, Some x) \<Rightarrow> (eb, Throws x)
      | (eb, None) \<Rightarrow>
          if envGet os ''TERRAWRAP_NO_TERRAFORM'' = Some ''true'' then (eb, Returns 0)
          else
            (case denoRun os (''terraform'' # denoArgs os) of
               RunRaises x \<Rightarrow> (eb @ [Run (''terraform'' # denoArgs os)], Throws x)
             | RunStatus code signal \<Rightarrow>
                 (eb @ [Run (''terraform'' # denoArgs os)],
                  Returns (if signal = None then code else 1))))"

text \<open>
  \<open>try { ... } finally { if (after) await after(); }\<close>: the block's completion stands
  unless the hook throws, and then the hook's error replaces it.
\<close>

definition terraform :: "os \<Rightarrow> hook option \<Rightarrow> hook option \<Rightarrow> effect list \<times> completion" where
  "terraform os before after =
     (case terraformTry os before of
        (es, c) \<Rightarrow>
          (case after of
             None \<Rightarrow> (es, c)
           | Some (ea, None) \<Rightarrow> (es @ ea, c)
           | Some (ea, Some x) \<Rightarrow> (es @ ea, Throws x)))"

subsection \<open>The module's top level\<close>

text \<open>
  How the process ends: \<open>Deno.exit(code)\<close>, or an error nobody caught (a rejected
  top-level \<open>await\<close>), which Deno reports before it exits.
\<close>

datatype outcome = Exit int | Uncaught string

definition exitWith :: "effect list \<times> completion \<Rightarrow> effect list \<times> outcome" where
  "exitWith r = (case r of (es, Returns n) \<Rightarrow> (es, Exit n) | (es, Throws x) \<Rightarrow> (es, Uncaught x))"

definition fatalExit :: "effect list \<Rightarrow> fatal \<Rightarrow> effect list \<times> outcome" where
  "fatalExit es f = (es @ [ConsoleError (message f)], Exit (exit_code f))"

text \<open>The two hooks that the last statement passes to \<open>terraform\<close>.\<close>

definition writeHook :: "os \<Rightarrow> string \<Rightarrow> string \<Rightarrow> hook" where
  "writeHook os generatedFile content =
     ([WriteTextFile generatedFile content], writeTextFile os generatedFile content)"

definition cleanupHook :: "os \<Rightarrow> string \<Rightarrow> hook" where
  "cleanupHook os generatedFile =
     (if \<not> (envGet os ''TERRAWRAP_NO_CLEANUP'' = Some ''true'')
      then ([Remove generatedFile], removeFile os generatedFile)
      else ([], None))"

text \<open>
  The statements after \<open>loadConfig\<close> returned a configuration. A TypeError thrown
  by a conversion to text is caught nowhere and ends the process.
\<close>

definition typeErrorText :: string where
  "typeErrorText = ''TypeError: Cannot convert object to primitive value''"

definition withConfig :: "os \<Rightarrow> Config \<Rightarrow> effect list \<times> outcome" where
  "withConfig os c =
     (if \<not> isValidString (JStr (cfgKey c)) then
        fatalExit []
          (Fatal (''Working directory must be in subdirectory of config file '' @ cfgFile c) 1)
      else
        case executionRole (cfgFile c) (cfgKey c) (elements (getProp (cfgConfig c) ''execution'')) of
          Inl (Panicked f) \<Rightarrow> fatalExit [] f
        | Inl TypeErrorThrown \<Rightarrow> ([], Uncaught typeErrorText)
        | Inr role \<Rightarrow>
            (let backend = getProp (cfgConfig c) ''s3_backend'';
                 generatedFile = join (cfgWorkingDir c) ''00_generated.tf''
             in case generatedContent backend (cfgKey c) role of
                  None \<Rightarrow> ([], Uncaught typeErrorText)
                | Some content \<Rightarrow>
                    exitWith (terraform os (Some (writeHook os generatedFile content))
                                           (Some (cleanupHook os generatedFile)))))"

definition main :: "os \<Rightarrow> effect list \<times> outcome" where
  "main os =
     (case workingDir os of
        Inl f \<Rightarrow> fatalExit [] f
      | Inr wd \<Rightarrow>
          (case loadConfig os wd of
             (reads, Inl f) \<Rightarrow> fatalExit reads f
           | (reads, Inr None) \<Rightarrow>
               (case exitWith (terraform os None None) of (es, out) \<Rightarrow> (reads @ es, out))
           | (reads, Inr (Some c)) \<Rightarrow>
               (case withConfig os c of (es, out) \<Rightarrow> (reads @ es, out))))"

section \<open>Properties\<close>

subsection \<open>Notions used to state them\<close>

text \<open>
  A rule selects a key as the code tests it: the rule's prefix has a text, that text
  starts the key, and the rule's role is a non-empty string.
\<close>

definition ruleSelects :: "string \<Rightarrow> jsval \<Rightarrow> bool" where
  "ruleSelects k r =
     (case toStringJS (getProp r ''prefix'') of
        Some p \<Rightarrow> prefix p k \<and> isValidString (getProp r ''aws_execution_role'')
      | None \<Rightarrow> False)"

text \<open>
  A rule whose prefix has no text: a mapping with a key \<open>toString\<close>, or a sequence
  that holds one.
\<close>

definition prefixThrows :: "jsval \<Rightarrow> bool" where
  "prefixThrows r = (toStringJS (getProp r ''prefix'') = None)"

text \<open>The role of a rule whose role is a string.\<close>

definition roleOf :: "jsval \<Rightarrow> string" where
  "roleOf r = (case getProp r ''aws_execution_role'' of JStr role \<Rightarrow> role | _ \<Rightarrow> [])"

text \<open>
  A rule selects a key as the specification words it: the rule has a non-empty prefix
  that starts the key, and a non-empty role.
\<close>

definition ruleClaimed :: "string \<Rightarrow> jsval \<Rightarrow> bool" where
  "ruleClaimed k r =
     (case getProp r ''prefix'' of
        JStr p \<Rightarrow> p \<noteq> [] \<and> prefix p k \<and> isValidString (getProp r ''aws_execution_role'')
      | _ \<Rightarrow> False)"

definition rule :: "string \<Rightarrow> string \<Rightarrow> jsval" where
  "rule p r = JObj [(''prefix'', JStr p), (''aws_execution_role'', JStr r)]"

text \<open>
  The required fields a parsed configuration violates, as paths, in the order of the
  checks: a field of \<open>s3_backend\<close> that is not a non-empty string (so also a missing
  one, which reads as \<open>undefined\<close>, and the empty text), and an \<open>execution\<close> that is
  not an array.
\<close>

definition violated :: "jsval \<Rightarrow> string list" where
  "violated parsed =
     [''.s3_backend.'' @ n.
        n \<leftarrow> [''role_arn'', ''region'', ''bucket'', ''dynamodb_table''],
        \<not> isValidString (getProp (getProp parsed ''s3_backend'') n)] @
     [''.execution''. p \<leftarrow> [getProp parsed ''execution''], \<not> isArray p]"

text \<open>The override \<open>TERRAWRAP_NO_TERRAFORM\<close> is set to \<open>true\<close>.\<close>

definition suppressed :: "os \<Rightarrow> bool" where
  "suppressed os = (envGet os ''TERRAWRAP_NO_TERRAFORM'' = Some ''true'')"

definition hookEffects :: "hook option \<Rightarrow> effect list" where
  "hookEffects h = (case h of None \<Rightarrow> [] | Some (es, x) \<Rightarrow> es)"

text \<open>The error a hook throws, if it is there and throws.\<close>

definition hookThrows :: "hook option \<Rightarrow> string option" where
  "hookThrows h = (case h of None \<Rightarrow> None | Some (es, x) \<Rightarrow> x)"

text \<open>A hook that is absent, or that does not throw.\<close>

definition hookCompletes :: "hook option \<Rightarrow> bool" where
  "hookCompletes h = (case h of None \<Rightarrow> True | Some (es, x) \<Rightarrow> x = None)"

text \<open>
  An argument in which some occurrence of \<open>-chdir=\<close> is followed, up to the end of the
  argument, by no line terminator.
\<close>

definition valueForm :: "string \<Rightarrow> bool" where
  "valueForm a =
     list_ex (\<lambda>s. prefix ''-chdir='' s \<and> \<not> list_ex isLineTerminator (drop 7 s)) (suffixes a)"

text \<open>An environment for examples: writing and removing succeed.\<close>

definition osWith ::
  "string list \<Rightarrow> (string \<Rightarrow> string option) \<Rightarrow> (string \<Rightarrow> file_outcome) \<Rightarrow> run_outcome \<Rightarrow> os" where
  "osWith as e rd r =
     \<lparr> denoArgs = as, denoCwd = ''/home/u'', envGet = e, readYml = rd,
       writeTextFile = (\<lambda>_ _. None), removeFile = (\<lambda>_. None), denoRun = (\<lambda>_. r) \<rparr>"

definition onlySet :: "string \<Rightarrow> string \<Rightarrow> string option" where
  "onlySet name n = (if n = name then Some ''true'' else None)"


text \<open>A valid configuration with one rule; its bucket name holds a double quote.\<close>

definition exampleConfig :: jsval where
  "exampleConfig =
     JObj [(''s3_backend'',
            JObj [(''role_arn'', JStr ''arn:aws:iam::111:role/state''),
                  (''region'', JStr ''eu-west-1''),
                  (''bucket'', JStr (''my'' @ dq @ ''bucket'')),
                  (''dynamodb_table'', JStr ''locks'')]),
           (''execution'',
            JArr [JObj [(''prefix'', JStr ''sub''),
                        (''aws_execution_role'', JStr ''arn:aws:iam::111:role/x'')]])]"

text \<open>
  Absolute paths in normal form, by their segments: \<open>absPath [a, b]\<close> is \<open>/a/b\<close>. A
  clean segment is a name a normalised path can hold: not empty, without separator, and
  neither \<open>.\<close> nor \<open>..\<close>.
\<close>

definition cleanSeg :: "string \<Rightarrow> bool" where
  "cleanSeg s = (s \<noteq> [] \<and> CHR ''/'' \<notin> set s \<and> s \<noteq> ''.'' \<and> s \<noteq> ''..'')"

definition absPath :: "string list \<Rightarrow> string" where
  "absPath segs = concat (map (\<lambda>s. CHR ''/'' # s) segs)"

text \<open>
  The candidates in the directories from \<open>absPath (cs @ rs)\<close> up to, and without,
  \<open>absPath cs\<close>, in the order the generator yields them.
\<close>

definition closer :: "string list \<Rightarrow> string list \<Rightarrow> string list" where
  "closer cs rs =
     concat (map (\<lambda>ps. [absPath (cs @ ps) @ ''/wrapper-config.yml'',
                          absPath (cs @ ps) @ ''/wrapper-config.yaml''])
                 (rev (tl (prefixes rs))))"

subsection \<open>The execution role\<close>

lemma startsWith_prefix: "startsWith s p = prefix p s"
  by (induction s p rule: startsWith.induct) auto

lemma roleLoop_find:
  "\<not> isValidString e \<Longrightarrow>
   (case find (\<lambda>r. prefixThrows r \<or> ruleSelects k r) rules of
      None \<Rightarrow> (\<exists>x. roleLoop k rules e = Some x \<and> \<not> isValidString x)
    | Some r \<Rightarrow>
        if prefixThrows r then roleLoop k rules e = None
        else roleLoop k rules e = Some (getProp r ''aws_execution_role''))"
proof (induction rules arbitrary: e)
  case Nil
  then show ?case by simp
next
  case (Cons r rules)
  show ?case
  proof (cases "toStringJS (getProp r ''prefix'')")
    case None
    then show ?thesis by (simp add: prefixThrows_def)
  next
    case (Some p)
    then have nt: "\<not> prefixThrows r" by (simp add: prefixThrows_def)
    show ?thesis
    proof (cases "ruleSelects k r")
      case True
      with Some nt show ?thesis by (simp add: ruleSelects_def startsWith_prefix)
    next
      case notSel: False
      show ?thesis
      proof (cases "startsWith k p")
        case True
        with notSel Some have inv: "\<not> isValidString (getProp r ''aws_execution_role'')"
          by (simp add: ruleSelects_def startsWith_prefix)
        from Cons.IH [OF inv] notSel nt True inv Some show ?thesis
          by (auto simp: Let_def split: option.splits)
      next
        case False
        with Cons.IH [OF Cons.prems] notSel nt Some show ?thesis
          by (auto simp: Let_def split: option.splits)
      qed
    qed
  qed
qed

text \<open>
  C2, as the code has it. For every key and every list of rules, the loop stops at the
  first rule, in list order, whose prefix has no text or whose prefix, read as text,
  starts the key while its role is a non-empty string; the prefix itself may be empty,
  and then it starts every key. At a rule of the second kind the role is that rule's.
  At a rule of the first kind (its prefix is a mapping with a key \<open>toString\<close>)
  \<open>startsWith\<close> throws a TypeError that nothing catches. When the loop stops at no
  rule, the resolution panics (exit code 1) with a message that names the configuration
  file and the key.
\<close>

theorem executionRole_first_selecting_rule:
  "executionRole file k rules =
     (case find (\<lambda>r. prefixThrows r \<or> ruleSelects k r) rules of
        None \<Rightarrow>
          Inl (Panicked (Fatal (''No execution role is found in '' @ file @ '' for key '' @ k) 1))
      | Some r \<Rightarrow> if prefixThrows r then Inl TypeErrorThrown else Inr (roleOf r))"
proof -
  have ne: "\<not> isValidString (JStr [])" by simp
  show ?thesis
  proof (cases "find (\<lambda>r. prefixThrows r \<or> ruleSelects k r) rules")
    case None
    with roleLoop_find [OF ne, of k rules] show ?thesis
      by (auto simp: executionRole_def)
  next
    case (Some r)
    show ?thesis
    proof (cases "prefixThrows r")
      case True
      with Some roleLoop_find [OF ne, of k rules] show ?thesis
        by (simp add: executionRole_def)
    next
      case False
      with Some roleLoop_find [OF ne, of k rules]
      have eq: "roleLoop k rules (JStr []) = Some (getProp r ''aws_execution_role'')" by simp
      from Some False have "ruleSelects k r" by (auto simp: find_Some_iff)
      then have "isValidString (getProp r ''aws_execution_role'')"
        by (simp add: ruleSelects_def split: option.splits)
      then obtain role where "getProp r ''aws_execution_role'' = JStr role" "role \<noteq> []"
        by (cases "getProp r ''aws_execution_role''") simp_all
      with eq Some False show ?thesis by (simp add: executionRole_def roleOf_def)
    qed
  qed
qed

text \<open>
  C2 as stated fails twice. With the rules \<open>{prefix: "", role: A}\<close> and
  \<open>{prefix: "sub", role: B}\<close> and the key \<open>sub\<close>, the first rule with a non-empty
  prefix that starts the key is the second, yet the code selects \<open>A\<close>. With the one
  rule \<open>{prefix: {toString: sub}, role: A}\<close> no rule has a non-empty prefix that
  starts the key, yet the code does not panic with the message that names the file and
  the key: it throws a TypeError.
\<close>

theorem executionRole_empty_prefix_counterexample:
  "executionRole ''/p/wrapper-config.yml'' ''sub'' [rule [] ''A'', rule ''sub'' ''B''] = Inr ''A''
   \<and> find (ruleClaimed ''sub'') [rule [] ''A'', rule ''sub'' ''B''] = Some (rule ''sub'' ''B'')
   \<and> executionRole ''/p/wrapper-config.yml'' ''sub''
        [JObj [(''prefix'', JObj [(''toString'', JStr ''sub'')]),
               (''aws_execution_role'', JStr ''A'')]] = Inl TypeErrorThrown
   \<and> find (ruleClaimed ''sub'')
        [JObj [(''prefix'', JObj [(''toString'', JStr ''sub'')]),
               (''aws_execution_role'', JStr ''A'')]] = None"
  by (simp add: executionRole_def rule_def ruleClaimed_def)

text \<open>
  C10. A rule whose \<open>prefix\<close> reads as \<open>undefined\<close> (the property is absent) is tested
  with \<open>key.startsWith(undefined)\<close>: the loop treats it as a match exactly when the key
  begins with the text \<open>undefined\<close>, and otherwise passes on to the next rule with
  its state unchanged.
\<close>

theorem absent_prefix_reads_undefined:
  assumes "getProp r ''prefix'' = JUndefined"
  shows "roleLoop k (r # rest) e =
           (if prefix ''undefined'' k
            then (if isValidString (getProp r ''aws_execution_role'')
                  then Some (getProp r ''aws_execution_role'')
                  else roleLoop k rest (getProp r ''aws_execution_role''))
            else roleLoop k rest e)"
  using assms by (simp add: startsWith_prefix)

text \<open>
  A rule without prefix gives its role to the key \<open>undefined/x\<close> and not to the key
  \<open>sub\<close>.
\<close>

theorem absent_prefix_reads_undefined_witness:
  "getProp (JObj [(''aws_execution_role'', JStr ''R'')]) ''prefix'' = JUndefined
   \<and> executionRole ''f'' ''undefined/x'' [JObj [(''aws_execution_role'', JStr ''R'')]] = Inr ''R''
   \<and> executionRole ''f'' ''sub'' [JObj [(''aws_execution_role'', JStr ''R'')]]
       = Inl (Panicked (Fatal ''No execution role is found in f for key sub'' 1))"
proof -
  have h: "getProp (JObj [(''aws_execution_role'', JStr ''R'')]) ''prefix'' = JUndefined" by simp
  show ?thesis
    using absent_prefix_reads_undefined [OF h, of "''undefined/x''" "[]" "JStr []"]
          absent_prefix_reads_undefined [OF h, of "''sub''" "[]" "JStr []"]
    by (simp add: executionRole_def)
qed

subsection \<open>The scan of the candidates\<close>

lemma configErrors_violated: "configErrors parsed = map invalidMsg (violated parsed)"
  by (simp add: configErrors_def violated_def)

lemma in_filtered_map:
  "x \<in> set xs \<Longrightarrow> P x \<Longrightarrow> f x \<in> set (concat (map (\<lambda>y. if P y then [f y] else []) xs))"
  by (induction xs) auto

text \<open>
  A field of \<open>s3_backend\<close> that is missing, \<open>null\<close> or the empty text is among the
  violated ones, and so is an \<open>execution\<close> that is missing.
\<close>

lemma violated_missing_or_empty:
  assumes "n \<in> set [''role_arn'', ''region'', ''bucket'', ''dynamodb_table'']"
    and "getProp (getProp parsed ''s3_backend'') n = JUndefined
         \<or> getProp (getProp parsed ''s3_backend'') n = JNull
         \<or> getProp (getProp parsed ''s3_backend'') n = JStr []"
  shows "''.s3_backend.'' @ n \<in> set (violated parsed)"
proof -
  from assms(2) have inv: "\<not> isValidString (getProp (getProp parsed ''s3_backend'') n)"
    by auto
  from in_filtered_map [where f = "\<lambda>m. ''.s3_backend.'' @ m"
      and P = "\<lambda>m. \<not> isValidString (getProp (getProp parsed ''s3_backend'') m)", OF assms(1) inv]
  show ?thesis unfolding violated_def by (simp only: set_append Un_iff simp_thms)
qed

lemma violated_missing_execution:
  "getProp parsed ''execution'' = JUndefined \<Longrightarrow> ''.execution'' \<in> set (violated parsed)"
  by (simp add: violated_def)

lemma loadConfigLoop_skip:
  "\<forall>g\<in>set pre. readYml os g = NotFound \<Longrightarrow>
   loadConfigLoop os wd (pre @ cs) =
     (map ReadTextFile pre @ fst (loadConfigLoop os wd cs), snd (loadConfigLoop os wd cs))"
  by (induction pre) (simp_all add: split_beta)

text \<open>
  C3. When the scan reaches a file that parses (the candidates before it do not exist)
  and the parsed value violates a required field, the scan ends there with a panic (exit
  code 1) whose one message names the file and lists every violated field, one per
  line: the later candidates are not read.
\<close>

theorem loadConfig_reports_every_violation:
  assumes "\<forall>g\<in>set pre. readYml os g = NotFound"
    and "readYml os configFile = Parsed parsed"
    and "violated parsed \<noteq> []"
  shows "loadConfigLoop os wd (pre @ configFile # rest) =
           (map ReadTextFile pre @ [ReadTextFile configFile],
            Inl (Fatal (''Config error: '' @ configFile @ nl @
                        joinWith nl (map invalidMsg (violated parsed))) 1))"
  using assms(2,3) loadConfigLoop_skip [OF assms(1), of wd "configFile # rest"]
  by (simp add: configErrors_violated panic_def)

text \<open>
  A configuration with a valid \<open>role_arn\<close>, an empty \<open>bucket\<close>, and neither \<open>region\<close>,
  \<open>dynamodb_table\<close> nor \<open>execution\<close>: all four violations are reported at once.
\<close>

theorem loadConfig_reports_every_violation_witness:
  "loadConfigLoop
     (osWith [] (\<lambda>_. None)
        (\<lambda>f. if f = ''/p/wrapper-config.yml''
              then Parsed (JObj [(''s3_backend'', JObj [(''role_arn'', JStr ''r''), (''bucket'', JStr [])])])
              else NotFound)
        (RunStatus 0 None))
     ''/p/sub''
     [''/p/sub/wrapper-config.yml'', ''/p/sub/wrapper-config.yaml'',
      ''/p/wrapper-config.yml'', ''/p/wrapper-config.yaml''] =
   ([ReadTextFile ''/p/sub/wrapper-config.yml'', ReadTextFile ''/p/sub/wrapper-config.yaml'',
     ReadTextFile ''/p/wrapper-config.yml''],
    Inl (Fatal (''Config error: /p/wrapper-config.yml'' @ nl @
                ''Invalid '' @ dq @ ''.s3_backend.region'' @ dq @ nl @
                ''Invalid '' @ dq @ ''.s3_backend.bucket'' @ dq @ nl @
                ''Invalid '' @ dq @ ''.s3_backend.dynamodb_table'' @ dq @ nl @
                ''Invalid '' @ dq @ ''.execution'' @ dq) 1))"
  using loadConfig_reports_every_violation
    [of "[''/p/sub/wrapper-config.yml'', ''/p/sub/wrapper-config.yaml'']"
        "osWith [] (\<lambda>_. None)
           (\<lambda>f. if f = ''/p/wrapper-config.yml''
                 then Parsed (JObj [(''s3_backend'', JObj [(''role_arn'', JStr ''r''), (''bucket'', JStr [])])])
                 else NotFound)
           (RunStatus 0 None)"
        "''/p/wrapper-config.yml''"
        "JObj [(''s3_backend'', JObj [(''role_arn'', JStr ''r''), (''bucket'', JStr [])])]"
        "''/p/sub''" "[''/p/wrapper-config.yaml'']"]
  by (simp add: osWith_def violated_def invalidMsg_def)

text \<open>
  C4. At a candidate, the scan goes on to the remaining candidates exactly when reading
  it fails with \<open>NotFound\<close>. In every other case the candidate is the last file read;
  when the read or the parse fails otherwise, the result is a panic (exit code 1) whose
  message gives the candidate's path and the error.
\<close>

theorem loadConfig_scan_continues_only_on_NotFound:
  "(readYml os configFile = NotFound \<longrightarrow>
      loadConfigLoop os wd (configFile # rest) =
        (ReadTextFile configFile # fst (loadConfigLoop os wd rest), snd (loadConfigLoop os wd rest)))
   \<and> (readYml os configFile \<noteq> NotFound \<longrightarrow>
        fst (loadConfigLoop os wd (configFile # rest)) = [ReadTextFile configFile])
   \<and> (readYml os configFile = ReadFailed e \<or> readYml os configFile = ParseFailed e \<longrightarrow>
        loadConfigLoop os wd (configFile # rest) =
          ([ReadTextFile configFile], Inl (Fatal (''File: '' @ configFile @ nl @ e) 1)))"
  by (cases "readYml os configFile") (auto simp: panic_def Let_def split: prod.splits)

text \<open>
  The first candidate does not exist and the second cannot be read: the scan passes the
  first, stops at the second and reads no candidate of the parent directory.
\<close>

theorem loadConfig_scan_continues_only_on_NotFound_witness:
  "loadConfigLoop
     (osWith [] (\<lambda>_. None)
        (\<lambda>f. if f = ''/a/wrapper-config.yaml'' then ReadFailed ''PermissionDenied'' else NotFound)
        (RunStatus 0 None))
     ''/a''
     [''/a/wrapper-config.yml'', ''/a/wrapper-config.yaml'',
      ''/wrapper-config.yml'', ''/wrapper-config.yaml''] =
   ([ReadTextFile ''/a/wrapper-config.yml'', ReadTextFile ''/a/wrapper-config.yaml''],
    Inl (Fatal (''File: /a/wrapper-config.yaml'' @ nl @ ''PermissionDenied'') 1))"
  using loadConfig_scan_continues_only_on_NotFound
    [of "osWith [] (\<lambda>_. None)
           (\<lambda>f. if f = ''/a/wrapper-config.yaml'' then ReadFailed ''PermissionDenied'' else NotFound)
           (RunStatus 0 None)"
        "''/a/wrapper-config.yml''" "''/a''"
        "[''/a/wrapper-config.yaml'', ''/wrapper-config.yml'', ''/wrapper-config.yaml'']"
        "''PermissionDenied''"]
    loadConfig_scan_continues_only_on_NotFound
    [of "osWith [] (\<lambda>_. None)
           (\<lambda>f. if f = ''/a/wrapper-config.yaml'' then ReadFailed ''PermissionDenied'' else NotFound)
           (RunStatus 0 None)"
        "''/a/wrapper-config.yaml''" "''/a''"
        "[''/wrapper-config.yml'', ''/wrapper-config.yaml'']"
        "''PermissionDenied''"]
  by (simp add: osWith_def)

subsection \<open>The subprocess runner\<close>

text \<open>
  C6. The hook \<open>after\<close> runs on every path out of \<open>terraform\<close>: its effects \<open>ea\<close>
  are the last effects of the call when the hook \<open>before\<close> throws (the binary is then
  not run), when the run is suppressed by the override, when starting the binary throws,
  and when the binary ran and ended.
\<close>

theorem terraform_after_hook_on_every_path:
  "(before = Some (eb, Some x) \<longrightarrow>
      fst (terraform os before (Some (ea, xa))) = eb @ ea)
   \<and> (hookCompletes before \<and> suppressed os \<longrightarrow>
      fst (terraform os before (Some (ea, xa))) = hookEffects before @ ea)
   \<and> (hookCompletes before \<and> \<not> suppressed os
        \<and> denoRun os (''terraform'' # denoArgs os) = RunRaises y \<longrightarrow>
      fst (terraform os before (Some (ea, xa))) =
        hookEffects before @ [Run (''terraform'' # denoArgs os)] @ ea)
   \<and> (hookCompletes before \<and> \<not> suppressed os
        \<and> denoRun os (''terraform'' # denoArgs os) = RunStatus code signal \<longrightarrow>
      fst (terraform os before (Some (ea, xa))) =
        hookEffects before @ [Run (''terraform'' # denoArgs os)] @ ea)"
  by (cases "denoRun os (''terraform'' # denoArgs os)")
     (auto simp: terraform_def terraformTry_def hookCompletes_def hookEffects_def suppressed_def
           split: option.splits prod.splits)

text \<open>
  The cleanup hook of the program, on the four paths: the generated file is removed after
  a failed write, after a suppressed run, after a run that could not start and after a
  run that ended with code 2.
\<close>

theorem terraform_after_hook_on_every_path_witness:
  "fst (terraform (osWith [''plan''] (\<lambda>_. None) (\<lambda>_. NotFound) (RunStatus 2 None))
          (Some ([WriteTextFile ''/w/00_generated.tf'' ''x''], Some ''PermissionDenied''))
          (Some ([Remove ''/w/00_generated.tf''], None)))
     = [WriteTextFile ''/w/00_generated.tf'' ''x'', Remove ''/w/00_generated.tf'']
   \<and> fst (terraform (osWith [''plan''] (onlySet ''TERRAWRAP_NO_TERRAFORM'') (\<lambda>_. NotFound) (RunStatus 2 None))
          (Some ([WriteTextFile ''/w/00_generated.tf'' ''x''], None))
          (Some ([Remove ''/w/00_generated.tf''], None)))
     = [WriteTextFile ''/w/00_generated.tf'' ''x'', Remove ''/w/00_generated.tf'']
   \<and> fst (terraform (osWith [''plan''] (\<lambda>_. None) (\<lambda>_. NotFound) (RunRaises ''NotFound''))
          (Some ([WriteTextFile ''/w/00_generated.tf'' ''x''], None))
          (Some ([Remove ''/w/00_generated.tf''], None)))
     = [WriteTextFile ''/w/00_generated.tf'' ''x'', Run [''terraform'', ''plan''],
        Remove ''/w/00_generated.tf'']
   \<and> fst (terraform (osWith [''plan''] (\<lambda>_. None) (\<lambda>_. NotFound) (RunStatus 2 None))
          (Some ([WriteTextFile ''/w/00_generated.tf'' ''x''], None))
          (Some ([Remove ''/w/00_generated.tf''], None)))
     = [WriteTextFile ''/w/00_generated.tf'' ''x'', Run [''terraform'', ''plan''],
        Remove ''/w/00_generated.tf'']"
  using terraform_after_hook_on_every_path
    [of "Some ([WriteTextFile ''/w/00_generated.tf'' ''x''], Some ''PermissionDenied'')"
        "[WriteTextFile ''/w/00_generated.tf'' ''x'']" "''PermissionDenied''"
        "osWith [''plan''] (\<lambda>_. None) (\<lambda>_. NotFound) (RunStatus 2 None)"
        "[Remove ''/w/00_generated.tf'']" None "[]" 2 None]
    terraform_after_hook_on_every_path
    [of "Some ([WriteTextFile ''/w/00_generated.tf'' ''x''], None)"
        "[]" "[]"
        "osWith [''plan''] (onlySet ''TERRAWRAP_NO_TERRAFORM'') (\<lambda>_. NotFound) (RunStatus 2 None)"
        "[Remove ''/w/00_generated.tf'']" None "[]" 2 None]
    terraform_after_hook_on_every_path
    [of "Some ([WriteTextFile ''/w/00_generated.tf'' ''x''], None)"
        "[]" "[]"
        "osWith [''plan''] (\<lambda>_. None) (\<lambda>_. NotFound) (RunRaises ''NotFound'')"
        "[Remove ''/w/00_generated.tf'']" None "''NotFound''" 2 None]
    terraform_after_hook_on_every_path
    [of "Some ([WriteTextFile ''/w/00_generated.tf'' ''x''], None)"
        "[]" "[]"
        "osWith [''plan''] (\<lambda>_. None) (\<lambda>_. NotFound) (RunStatus 2 None)"
        "[Remove ''/w/00_generated.tf'']" None "[]" 2 None]
  by (simp add: osWith_def onlySet_def hookCompletes_def hookEffects_def suppressed_def)

text \<open>
  C7, as the code has it. The process ends with what \<open>terraform\<close> returns. When
  neither hook throws, that is a number: 0 when the override suppresses the run, and
  then the binary is not started; otherwise the binary's exit code when its status has
  no signal, and 1 when it has one. When a hook throws there is no number: the promise
  is rejected with the error of the hook \<open>after\<close> if that one throws, and else with the
  error of the hook \<open>before\<close> (the binary is then not started), and the error stays
  uncaught. The same holds for an error thrown when starting the binary.
\<close>

theorem terraform_result_with_hooks:
  "exitWith (terraform os before after) =
     (hookEffects before @
        (if hookThrows before = None \<and> \<not> suppressed os
         then [Run (''terraform'' # denoArgs os)] else []) @
        hookEffects after,
      case hookThrows after of
        Some y \<Rightarrow> Uncaught y
      | None \<Rightarrow>
          (case hookThrows before of
             Some x \<Rightarrow> Uncaught x
           | None \<Rightarrow>
               if suppressed os then Exit 0
               else (case denoRun os (''terraform'' # denoArgs os) of
                       RunStatus code None \<Rightarrow> Exit code
                     | RunStatus code (Some s) \<Rightarrow> Exit 1
                     | RunRaises x \<Rightarrow> Uncaught x)))"
  by (cases "denoRun os (''terraform'' # denoArgs os)")
     (auto simp: terraform_def terraformTry_def hookThrows_def hookEffects_def suppressed_def
                 exitWith_def
           split: option.splits prod.splits)

text \<open>
  C7 as stated fails. The binary ends normally with code 3 and the cleanup then throws
  (the file is gone): the process does not exit with 3. The override is set and the
  write throws: the process does not exit with 0.
\<close>

theorem terraform_hook_throws_counterexample:
  "exitWith (terraform (osWith [''plan''] (\<lambda>_. None) (\<lambda>_. NotFound) (RunStatus 3 None))
      (Some ([WriteTextFile ''/w/00_generated.tf'' ''x''], None))
      (Some ([Remove ''/w/00_generated.tf''], Some ''NotFound'')))
     = ([WriteTextFile ''/w/00_generated.tf'' ''x'', Run [''terraform'', ''plan''],
         Remove ''/w/00_generated.tf''],
        Uncaught ''NotFound'')
   \<and> exitWith (terraform (osWith [''plan''] (onlySet ''TERRAWRAP_NO_TERRAFORM'') (\<lambda>_. NotFound)
                  (RunStatus 3 None))
      (Some ([WriteTextFile ''/w/00_generated.tf'' ''x''], Some ''PermissionDenied''))
      (Some ([Remove ''/w/00_generated.tf''], None)))
     = ([WriteTextFile ''/w/00_generated.tf'' ''x'', Remove ''/w/00_generated.tf''],
        Uncaught ''PermissionDenied'')"
  by (simp add: terraform_def terraformTry_def exitWith_def osWith_def onlySet_def)

subsection \<open>No configuration\<close>

text \<open>
  Without a configuration the last statement is \<open>Deno.exit(await terraform())\<close>, with
  no hook: every candidate is read, nothing is written or printed, and the run is the
  runner's.
\<close>

lemma main_without_config:
  assumes "workingDir os = Inr wd"
    and "\<forall>f\<in>set (allPossibleConfigLocation wd). readYml os f = NotFound"
  shows "main os =
           (map ReadTextFile (allPossibleConfigLocation wd) @
              (if suppressed os then [] else [Run (''terraform'' # denoArgs os)]),
            if suppressed os then Exit 0
            else (case denoRun os (''terraform'' # denoArgs os) of
                    RunStatus code None \<Rightarrow> Exit code
                  | RunStatus code (Some s) \<Rightarrow> Exit 1
                  | RunRaises x \<Rightarrow> Uncaught x))"
proof -
  from loadConfigLoop_skip [OF assms(2), where cs = "[]" and wd = wd]
  have lc: "loadConfig os wd = (map ReadTextFile (allPossibleConfigLocation wd), Inr None)"
    by (simp add: loadConfig_def)
  have "exitWith (terraform os None None) =
          ((if suppressed os then [] else [Run (''terraform'' # denoArgs os)]),
            if suppressed os then Exit 0
            else (case denoRun os (''terraform'' # denoArgs os) of
                    RunStatus code None \<Rightarrow> Exit code
                  | RunStatus code (Some s) \<Rightarrow> Exit 1
                  | RunRaises x \<Rightarrow> Uncaught x))"
    by (cases "denoRun os (''terraform'' # denoArgs os)")
       (auto simp: terraform_def terraformTry_def suppressed_def exitWith_def split: option.splits)
  with lc assms(1) show ?thesis by (simp add: main_def)
qed

text \<open>
  C5. The scenario of the specification: no candidate exists in any directory from the
  working directory up to the root, in the default environment (the override that
  suppresses the run is a scenario of its own), and the binary runs and ends with an
  exit code. Then the process reads every candidate and finds none, prints no error,
  writes no file, runs the binary once with \<open>Deno.args\<close> unchanged, and exits with
  the binary's exit code.
\<close>

theorem no_config_wraps_binary:
  assumes "workingDir os = Inr wd"
    and "\<forall>f\<in>set (allPossibleConfigLocation wd). readYml os f = NotFound"
    and "\<not> suppressed os"
    and "denoRun os (''terraform'' # denoArgs os) = RunStatus code None"
  shows "main os =
           (map ReadTextFile (allPossibleConfigLocation wd) @ [Run (''terraform'' # denoArgs os)],
            Exit code)"
  using main_without_config [OF assms(1,2)] assms(3,4) by simp

text \<open>
  No configuration anywhere above \<open>/w\<close>, and a binary that ends with code 3: the
  process runs it with the arguments it was given and exits with 3.
\<close>

theorem no_config_wraps_binary_witness:
  "main (osWith [''plan'', ''-chdir=/w''] (\<lambda>_. None) (\<lambda>_. NotFound) (RunStatus 3 None)) =
     ([ReadTextFile ''/w/wrapper-config.yml'', ReadTextFile ''/w/wrapper-config.yaml'',
       ReadTextFile ''/wrapper-config.yml'', ReadTextFile ''/wrapper-config.yaml'',
       Run [''terraform'', ''plan'', ''-chdir=/w'']],
      Exit 3)"
proof -
  let ?os = "osWith [''plan'', ''-chdir=/w''] (\<lambda>_. None) (\<lambda>_. NotFound) (RunStatus 3 None)"
  have wd: "workingDir ?os = Inr ''/w''"
    by code_simp
  have cands: "allPossibleConfigLocation ''/w'' =
      [''/w/wrapper-config.yml'', ''/w/wrapper-config.yaml'',
       ''/wrapper-config.yml'', ''/wrapper-config.yaml'']"
    by code_simp
  have nf: "\<forall>f\<in>set (allPossibleConfigLocation ''/w''). readYml ?os f = NotFound"
    by (simp add: osWith_def)
  have ns: "\<not> suppressed ?os" by (simp add: suppressed_def osWith_def)
  have run: "denoRun ?os (''terraform'' # denoArgs ?os) = RunStatus 3 None"
    by (simp add: osWith_def)
  show ?thesis
    using no_config_wraps_binary [OF wd nf ns run]
    by (simp add: cands) (simp add: osWith_def)
qed

text \<open>
  The other scenario: with no configuration anywhere and \<open>TERRAWRAP_NO_TERRAFORM\<close>
  set to \<open>true\<close>, the binary (which would end with code 3) is not run, and the exit
  code is 0.
\<close>

lemma no_config_suppressed_scenario:
  "main (osWith [''plan'', ''-chdir=/w''] (onlySet ''TERRAWRAP_NO_TERRAFORM'') (\<lambda>_. NotFound)
            (RunStatus 3 None)) =
       ([ReadTextFile ''/w/wrapper-config.yml'', ReadTextFile ''/w/wrapper-config.yaml'',
         ReadTextFile ''/wrapper-config.yml'', ReadTextFile ''/wrapper-config.yaml''], Exit 0)"
  by code_simp

subsection \<open>The \<open>-chdir\<close> flag\<close>

lemma literal_prefix: "literal p s = (if prefix p s then Some (drop (length p) s) else None)"
  by (induction p s rule: literal.induct) auto

lemma chdirRe_literal_Match:
  "chdirRe_literal s = Match g \<longleftrightarrow>
     (s = ''-chdir'' \<and> g = None) \<or>
     (prefix ''-chdir='' s \<and> \<not> list_ex isLineTerminator (drop 7 s) \<and> g = Some (drop 7 s))"
proof (cases "prefix ''-chdir'' s")
  case False
  then have "\<not> prefix ''-chdir='' s" by (auto simp: prefix_def)
  with False show ?thesis by (auto simp: chdirRe_literal_def literal_prefix)
next
  case True
  then obtain t where s: "s = ''-chdir'' @ t" by (auto simp: prefix_def)
  show ?thesis
  proof (cases t)
    case Nil
    with s show ?thesis by (auto simp: chdirRe_literal_def)
  next
    case (Cons c v)
    with s show ?thesis by (auto simp: chdirRe_literal_def)
  qed
qed

lemma chdirRe_at_Match:
  "chdirRe_at s = Match g \<longleftrightarrow>
     chdirRe_literal s = Match g \<or> (\<exists>r. s = CHR ''-'' # r \<and> chdirRe_literal r = Match g)"
proof (cases s)
  case Nil
  then show ?thesis by (simp add: chdirRe_at_def split: re_match.splits)
next
  case (Cons c r)
  show ?thesis
  proof (cases "c = CHR ''-'' \<and> chdirRe_literal r \<noteq> NoMatch")
    case True
    then obtain g' where g': "chdirRe_literal r = Match g'" by (cases "chdirRe_literal r") auto
    then have "prefix ''-chdir'' r" by (auto simp: chdirRe_literal_Match prefix_def)
    with True Cons have "\<not> prefix ''-chdir'' s" by (auto simp: prefix_def)
    then have "chdirRe_literal s = NoMatch" by (simp add: chdirRe_literal_def literal_prefix)
    with True Cons g' show ?thesis by (auto simp: chdirRe_at_def)
  next
    case False
    with Cons show ?thesis by (auto simp: chdirRe_at_def split: re_match.splits)
  qed
qed

lemma valueForm_Cons:
  "valueForm (c # cs) \<longleftrightarrow>
     valueForm cs \<or>
     (prefix ''-chdir='' (c # cs) \<and> \<not> list_ex isLineTerminator (drop 7 (c # cs)))"
  by (auto simp: valueForm_def)

lemma valueForm_self:
  "prefix ''-chdir='' s \<Longrightarrow> \<not> list_ex isLineTerminator (drop 7 s) \<Longrightarrow> valueForm s"
  by (cases s) (simp_all add: valueForm_Cons)

lemma chdirRe_match_cases:
  "(chdirRe_match a = NoMatch \<longleftrightarrow> \<not> suffix ''-chdir'' a \<and> \<not> valueForm a) \<and>
   (chdirRe_match a = Match None \<longleftrightarrow> suffix ''-chdir'' a \<and> \<not> valueForm a)"
proof (induction a)
  case Nil
  show ?case by (simp add: chdirRe_at_def chdirRe_literal_def valueForm_def)
next
  case (Cons c cs)
  show ?case
  proof (cases "chdirRe_at (c # cs)")
    case NoMatch
    then have a: "\<And>g. chdirRe_literal (c # cs) \<noteq> Match g"
      using chdirRe_at_Match [of "c # cs"] by auto
    from a [of None] have ne: "c # cs \<noteq> ''-chdir''" by (simp add: chdirRe_literal_Match)
    from a [of "Some (drop 7 (c # cs))"]
    have nv: "\<not> (prefix ''-chdir='' (c # cs) \<and> \<not> list_ex isLineTerminator (drop 7 (c # cs)))"
      by (simp add: chdirRe_literal_Match)
    from ne have "suffix ''-chdir'' (c # cs) = suffix ''-chdir'' cs"
      by (auto simp: suffix_Cons)
    moreover from nv have "valueForm (c # cs) = valueForm cs"
      using valueForm_Cons [of c cs] by blast
    ultimately show ?thesis using Cons.IH NoMatch by simp
  next
    case (Match g)
    show ?thesis
    proof (cases g)
      case None
      with Match have "c # cs = ''-chdir'' \<or> c # cs = ''--chdir''"
        using chdirRe_at_Match [of "c # cs" None] by (auto simp: chdirRe_literal_Match)
      then have "suffix ''-chdir'' (c # cs) \<and> \<not> valueForm (c # cs)"
        by (auto simp: valueForm_def suffix_def)
      with Match None show ?thesis by simp
    next
      case (Some v)
      with Match have
        "chdirRe_literal (c # cs) = Match (Some v) \<or> chdirRe_literal cs = Match (Some v)"
        using chdirRe_at_Match [of "c # cs" "Some v"] by auto
      then have "valueForm (c # cs) \<or> valueForm cs"
        by (auto simp: chdirRe_literal_Match intro: valueForm_self)
      then have "valueForm (c # cs)" by (auto simp: valueForm_Cons)
      with Match Some show ?thesis by simp
    qed
  qed
qed

text \<open>
  C9, as the code has it. The pattern is not anchored at its start: an argument is taken
  as the flag exactly when it ends with \<open>-chdir\<close>, or contains \<open>-chdir=\<close>
  followed, up to the argument's end, by no line terminator. Whatever stands before the
  occurrence does not matter. When the argument ends with \<open>-chdir\<close> and has no such
  occurrence of \<open>-chdir=\<close>, the loop takes the following argument as the value of
  \<open>cwd\<close> and steps over it (and panics when that argument is empty or there is
  none).
\<close>

theorem chdir_flag_recognition:
  "(chdirRe_match a \<noteq> NoMatch \<longleftrightarrow> suffix ''-chdir'' a \<or> valueForm a) \<and>
   (suffix ''-chdir'' a \<and> \<not> valueForm a \<longrightarrow>
      chdirLoop (a # v # rest) None =
        (if v = [] then panic ''Invalid -chdir option'' else chdirLoop rest (Some v))
      \<and> chdirLoop [a] None = panic ''Invalid -chdir option'')"
proof -
  have "chdirRe_match a = Match None \<Longrightarrow>
        chdirLoop (a # v # rest) None =
          (if v = [] then panic ''Invalid -chdir option'' else chdirLoop rest (Some v))
        \<and> chdirLoop [a] None = panic ''Invalid -chdir option''"
    by simp
  with chdirRe_match_cases [of a] show ?thesis by blast
qed

text \<open>
  The arguments \<open>--no-chdir\<close> and \<open>foo-chdir\<close> are taken as the flag, and the
  argument after them as the directory.
\<close>

theorem chdir_flag_recognition_witness:
  "chdirRe_match ''--no-chdir'' \<noteq> NoMatch \<and> chdirRe_match ''foo-chdir'' \<noteq> NoMatch
   \<and> chdirLoop [''--no-chdir'', ''/tmp/x'', ''plan''] None = Inr (Some ''/tmp/x'')
   \<and> chdirLoop [''foo-chdir'', ''/tmp/x'', ''plan''] None = Inr (Some ''/tmp/x'')"
proof -
  have s1: "suffix ''-chdir'' ''--no-chdir''" by (simp add: suffix_def)
  have s2: "suffix ''-chdir'' ''foo-chdir''" by (simp add: suffix_def)
  have v1: "\<not> valueForm ''--no-chdir''" by (simp add: valueForm_def)
  have v2: "\<not> valueForm ''foo-chdir''" by (simp add: valueForm_def)
  have p: "chdirLoop [''plan''] (Some ''/tmp/x'') = Inr (Some ''/tmp/x'')"
    by (simp add: chdirRe_at_def chdirRe_literal_def)
  show ?thesis
    using chdir_flag_recognition [of "''--no-chdir''" "''/tmp/x''" "[''plan'']"]
          chdir_flag_recognition [of "''foo-chdir''" "''/tmp/x''" "[''plan'']"]
          s1 s2 v1 v2 p
    by simp
qed

text \<open>
  C9 as stated fails: the argument \<open>-chdir=a\<close>, a line feed, \<open>b\<close> contains
  \<open>-chdir\<close> followed by \<open>=\<close>, yet the pattern does not match it (\<open>.\<close> stops at
  the line feed and \<open>$\<close> needs the end) and the loop leaves \<open>cwd\<close> unset.
\<close>

theorem chdir_value_with_newline_counterexample:
  "prefix ''-chdir='' (''-chdir=a'' @ nl @ ''b'')
   \<and> chdirRe_match (''-chdir=a'' @ nl @ ''b'') = NoMatch
   \<and> chdirLoop [''-chdir=a'' @ nl @ ''b''] None = Inr None"
  by (simp add: nl_def chdirRe_at_def chdirRe_literal_def isLineTerminator_def)

subsection \<open>The generated file\<close>






subsection \<open>The key\<close>

text \<open>
  C1 at the filesystem root. From the working directory \<open>/abc/d\<close>, with the only
  configuration file at \<open>/wrapper-config.yml\<close>, the locator returns that file, but the
  key is \<open>bc/d\<close> and not the relative path \<open>abc/d\<close>: \<open>dirname\<close> of the file is
  \<open>/\<close>, which already ends with the separator, and \<open>slice\<close> skips one character
  more than its length.
\<close>

theorem loadConfig_at_root_cuts_the_key:
  "loadConfig
     (osWith [''plan'', ''-chdir=/abc/d''] (\<lambda>_. None)
        (\<lambda>f. if f = ''/wrapper-config.yml'' then Parsed exampleConfig else NotFound)
        (RunStatus 0 None))
     ''/abc/d'' =
   ([ReadTextFile ''/abc/d/wrapper-config.yml'', ReadTextFile ''/abc/d/wrapper-config.yaml'',
     ReadTextFile ''/abc/wrapper-config.yml'', ReadTextFile ''/abc/wrapper-config.yaml'',
     ReadTextFile ''/wrapper-config.yml''],
    Inr (Some \<lparr> cfgFile = ''/wrapper-config.yml'', cfgWorkingDir = ''/abc/d'',
                cfgKey = ''bc/d'', cfgConfig = exampleConfig \<rparr>))"
  by code_simp

subsection \<open>The key below a configuration directory\<close>

lemma absPath_simps [simp]:
  "absPath [] = []" "absPath (s # segs) = CHR ''/'' # s @ absPath segs"
  "absPath (xs @ ys) = absPath xs @ absPath ys"
  by (simp_all add: absPath_def)

lemma splitSlash_no_slash: "CHR ''/'' \<notin> set s \<Longrightarrow> splitSlash s = [s]"
  by (induction s) auto

lemma splitSlash_segment:
  "CHR ''/'' \<notin> set s \<Longrightarrow> splitSlash (s @ CHR ''/'' # r) = s # splitSlash r"
  by (induction s) auto

lemma splitSlash_absPath:
  "\<forall>t\<in>set segs. CHR ''/'' \<notin> set t \<Longrightarrow> CHR ''/'' \<notin> set s \<Longrightarrow>
   splitSlash (s @ absPath segs) = s # segs"
proof (induction segs arbitrary: s)
  case Nil
  then show ?case by (simp add: splitSlash_no_slash)
next
  case (Cons t ts)
  then have "splitSlash (t @ absPath ts) = t # ts" by simp
  with Cons.prems show ?case by (simp add: splitSlash_segment)
qed

lemma normSegments_clean:
  "\<forall>s\<in>set segs. cleanSeg s \<Longrightarrow> normSegments b res segs = res @ segs"
  by (induction segs arbitrary: res) (auto simp: cleanSeg_def)

lemma joinWith_absPath: "joinWith ''/'' (s # segs) = s @ absPath segs"
  by (induction segs arbitrary: s) simp_all

lemma absPath_last:
  "segs \<noteq> [] \<Longrightarrow> \<forall>s\<in>set segs. cleanSeg s \<Longrightarrow> last (absPath segs) \<noteq> CHR ''/''"
proof (induction segs rule: rev_induct)
  case Nil
  then show ?case by simp
next
  case (snoc s segs)
  then have "cleanSeg s" by simp
  then have ne: "s \<noteq> []" and ns: "CHR ''/'' \<notin> set s" by (simp_all add: cleanSeg_def)
  from last_in_set [OF ne] ns have "last s \<noteq> CHR ''/''" by metis
  with ne have "s \<noteq> []" "last s \<noteq> CHR ''/''" by simp_all
  then show ?case by simp
qed

lemma normalize_absPath:
  assumes "segs \<noteq> []" and "\<forall>s\<in>set segs. cleanSeg s"
  shows "normalizePath (absPath segs) = absPath segs"
proof -
  from assms(1) obtain s ss where segs: "segs = s # ss" by (cases segs) auto
  from assms(2) have ns: "\<forall>t\<in>set segs. CHR ''/'' \<notin> set t" by (simp add: cleanSeg_def)
  from splitSlash_absPath [OF ns, of "[]"] have sp: "splitSlash (absPath segs) = [] # segs" by simp
  have "normSegments False [] ([] # segs) = segs"
    using normSegments_clean [OF assms(2), of False "[]"] by simp
  with sp have "normalizeString (absPath segs) False = s @ absPath ss"
    by (simp add: normalizeString_def segs joinWith_absPath)
  moreover from assms(2) segs have "s \<noteq> []" by (simp add: cleanSeg_def)
  moreover have "last (absPath segs) \<noteq> CHR ''/''" by (rule absPath_last [OF assms])
  ultimately show ?thesis
    by (simp add: normalizePath_def isAbsolute_def segs Let_def)
qed

lemma join_absPath:
  assumes "segs \<noteq> []" and "\<forall>s\<in>set segs. cleanSeg s" and "cleanSeg name"
  shows "join (absPath segs) name = absPath segs @ ''/'' @ name"
proof -
  from assms(1) have ne: "absPath segs \<noteq> []" by (cases segs) simp_all
  from assms(3) have "name \<noteq> []" by (simp add: cleanSeg_def)
  with ne have "join (absPath segs) name = normalizePath (absPath (segs @ [name]))"
    by (simp add: join_def)
  also have "\<dots> = absPath (segs @ [name])"
    using assms by (intro normalize_absPath) auto
  finally show ?thesis by simp
qed

lemma dirnameEnd_through_segment:
  "CHR ''/'' \<notin> set s \<Longrightarrow> j \<le> length s \<Longrightarrow> 1 \<le> j \<Longrightarrow>
   dirnameEnd (q @ CHR ''/'' # s) (length q + j) m = dirnameEnd (q @ CHR ''/'' # s) (length q) False"
proof (induction j arbitrary: m)
  case 0
  then show ?case by simp
next
  case (Suc j)
  have "(q @ CHR ''/'' # s) ! (length q + Suc j) = s ! j"
    by (simp add: nth_append)
  moreover from Suc.prems have "s ! j \<in> set s" by simp
  ultimately have nsl: "(q @ CHR ''/'' # s) ! Suc (length q + j) \<noteq> CHR ''/''"
    using Suc.prems(1) by auto
  show ?case
  proof (cases "j = 0")
    case True
    with nsl show ?thesis by simp
  next
    case False
    with Suc.prems have "dirnameEnd (q @ CHR ''/'' # s) (length q + j) False
        = dirnameEnd (q @ CHR ''/'' # s) (length q) False"
      by (intro Suc.IH) simp_all
    with nsl show ?thesis by simp
  qed
qed

lemma dirnameEnd_at_slash:
  "q \<noteq> [] \<Longrightarrow> dirnameEnd (q @ CHR ''/'' # s) (length q) False = Some (length q)"
  by (cases "length q") (simp_all add: nth_append)

lemma dirname_absPath:
  assumes "segs \<noteq> []" and "\<forall>t\<in>set segs. cleanSeg t" and "cleanSeg s"
  shows "dirname (absPath segs @ ''/'' @ s) = absPath segs"
proof -
  let ?q = "absPath segs"
  from assms(1) obtain t ts where segs: "segs = t # ts" by (cases segs) auto
  with assms(2) have "t \<noteq> []" by (simp add: cleanSeg_def)
  with segs have len: "2 \<le> length ?q" by (cases t) simp_all
  then have ne: "?q \<noteq> []" by auto
  from assms(3) have s: "CHR ''/'' \<notin> set s" "1 \<le> length s"
    by (auto simp: cleanSeg_def Suc_le_eq)
  have "dirnameEnd (?q @ CHR ''/'' # s) (length ?q + length s) True = Some (length ?q)"
    using dirnameEnd_through_segment [OF s(1) _ s(2), of ?q True] dirnameEnd_at_slash [OF ne, of s]
    by simp
  moreover have "length (?q @ ''/'' @ s) - 1 = length ?q + length s" by simp
  ultimately have "dirnameEnd (?q @ ''/'' @ s) (length (?q @ ''/'' @ s) - 1) True = Some (length ?q)"
    by simp
  with len ne show ?thesis
    by (simp add: dirname_def)
qed

lemma closer_simps:
  "closer cs [] = []"
  "closer cs (rs @ [r]) =
     (absPath (cs @ rs @ [r]) @ ''/wrapper-config.yml'') #
     (absPath (cs @ rs @ [r]) @ ''/wrapper-config.yaml'') # closer cs rs"
proof -
  show "closer cs [] = []" by (simp add: closer_def)
  have "prefixes rs \<noteq> []" by (cases rs) simp_all
  then have "tl (prefixes (rs @ [r])) = tl (prefixes rs) @ [rs @ [r]]"
    by simp
  then show "closer cs (rs @ [r]) =
     (absPath (cs @ rs @ [r]) @ ''/wrapper-config.yml'') #
     (absPath (cs @ rs @ [r]) @ ''/wrapper-config.yaml'') # closer cs rs"
    by (simp add: closer_def)
qed

lemma cleanSeg_names:
  "cleanSeg ''wrapper-config.yml''" "cleanSeg ''wrapper-config.yaml''"
  by (simp_all add: cleanSeg_def)

lemma candidates_step:
  assumes "segs \<noteq> []" and "\<forall>t\<in>set segs. cleanSeg t" and "cleanSeg s"
  shows "allPossibleConfigLocation (absPath (segs @ [s])) =
           (absPath (segs @ [s]) @ ''/wrapper-config.yml'') #
           (absPath (segs @ [s]) @ ''/wrapper-config.yaml'') #
           allPossibleConfigLocation (absPath segs)"
proof -
  have cl: "\<forall>t\<in>set (segs @ [s]). cleanSeg t" using assms by simp
  have ne: "segs @ [s] \<noteq> []" by simp
  have d: "dirname (absPath (segs @ [s])) = absPath segs"
    using dirname_absPath [OF assms] by simp
  from assms(3) have "s \<noteq> []" by (simp add: cleanSeg_def)
  then have neq: "absPath segs \<noteq> absPath (segs @ [s])" by simp
  show ?thesis
    by (subst allPossibleConfigLocation.simps)
       (simp add: join_absPath [OF ne cl] cleanSeg_names d neq del: absPath_simps(3))
qed

lemma candidates_head:
  assumes "segs \<noteq> []" and "\<forall>t\<in>set segs. cleanSeg t"
  shows "\<exists>rest. allPossibleConfigLocation (absPath segs) =
           (absPath segs @ ''/wrapper-config.yml'') #
           (absPath segs @ ''/wrapper-config.yaml'') # rest"
  by (subst allPossibleConfigLocation.simps)
     (simp add: join_absPath [OF assms] cleanSeg_names)

lemma candidates_closer:
  assumes "cs \<noteq> []" and "\<forall>t\<in>set (cs @ rs). cleanSeg t"
  shows "allPossibleConfigLocation (absPath (cs @ rs)) =
           closer cs rs @ allPossibleConfigLocation (absPath cs)"
  using assms(2)
proof (induction rs rule: rev_induct)
  case Nil
  show ?case by (simp add: closer_simps)
next
  case (snoc r rs)
  from snoc.prems have cl: "\<forall>t\<in>set (cs @ rs). cleanSeg t" and r: "cleanSeg r" by simp_all
  from assms(1) have ne: "cs @ rs \<noteq> []" by simp
  from candidates_step [OF ne cl r] snoc.IH [OF cl]
  show ?case by (simp add: closer_simps)
qed

lemma key_relative:
  assumes "rs \<noteq> []"
  shows "drop (length (absPath cs) + 1) (absPath (cs @ rs)) = joinWith ''/'' rs"
proof -
  from assms obtain r rs' where "rs = r # rs'" by (cases rs) auto
  then show ?thesis by (simp add: joinWith_absPath)
qed

text \<open>
  The key below a configuration directory other than the root. Let the working
  directory be \<open>/c1/.../cm/r1/.../rn\<close> (clean segments, at least one \<open>c\<close> and one
  \<open>r\<close>), let no candidate exist in the directories from it up to \<open>/c1/.../cm/r1\<close>,
  and let \<open>/c1/.../cm\<close> hold a configuration that passes the checks (in
  \<open>wrapper-config.yml\<close>, or in \<open>wrapper-config.yaml\<close> with no
  \<open>wrapper-config.yml\<close> beside it). Then \<open>loadConfig\<close> returns that file, and the key
  is \<open>r1/.../rn\<close>, the working directory relative to the configuration's directory.
\<close>

theorem loadConfig_key_below_config:
  assumes "\<forall>s\<in>set (cs @ rs). cleanSeg s" and "cs \<noteq> []" and "rs \<noteq> []"
    and "\<forall>f\<in>set (closer cs rs). readYml os f = NotFound"
    and "configErrors parsed = []"
  shows
    "(readYml os (absPath cs @ ''/wrapper-config.yml'') = Parsed parsed \<longrightarrow>
        loadConfig os (absPath (cs @ rs)) =
          (map ReadTextFile (closer cs rs) @ [ReadTextFile (absPath cs @ ''/wrapper-config.yml'')],
           Inr (Some \<lparr> cfgFile = absPath cs @ ''/wrapper-config.yml'',
                       cfgWorkingDir = absPath (cs @ rs),
                       cfgKey = joinWith ''/'' rs,
                       cfgConfig = parsed \<rparr>)))
     \<and> (readYml os (absPath cs @ ''/wrapper-config.yml'') = NotFound \<and>
        readYml os (absPath cs @ ''/wrapper-config.yaml'') = Parsed parsed \<longrightarrow>
        loadConfig os (absPath (cs @ rs)) =
          (map ReadTextFile (closer cs rs) @
             [ReadTextFile (absPath cs @ ''/wrapper-config.yml''),
              ReadTextFile (absPath cs @ ''/wrapper-config.yaml'')],
           Inr (Some \<lparr> cfgFile = absPath cs @ ''/wrapper-config.yaml'',
                       cfgWorkingDir = absPath (cs @ rs),
                       cfgKey = joinWith ''/'' rs,
                       cfgConfig = parsed \<rparr>)))"
proof -
  from assms(1) have cl: "\<forall>t\<in>set cs. cleanSeg t" by simp
  from candidates_head [OF assms(2) cl] obtain rest where
    hd: "allPossibleConfigLocation (absPath cs) =
           (absPath cs @ ''/wrapper-config.yml'') # (absPath cs @ ''/wrapper-config.yaml'') # rest"
    by blast
  have cands: "allPossibleConfigLocation (absPath (cs @ rs)) =
      closer cs rs @ (absPath cs @ ''/wrapper-config.yml'') #
                     (absPath cs @ ''/wrapper-config.yaml'') # rest"
    using candidates_closer [OF assms(2,1)] hd by simp
  have d1: "dirname (absPath cs @ ''/wrapper-config.yml'') = absPath cs"
    using dirname_absPath [OF assms(2) cl cleanSeg_names(1)] by simp
  have d2: "dirname (absPath cs @ ''/wrapper-config.yaml'') = absPath cs"
    using dirname_absPath [OF assms(2) cl cleanSeg_names(2)] by simp
  note k = key_relative [OF assms(3), of cs]
  note skip = loadConfigLoop_skip [OF assms(4), of "absPath (cs @ rs)"]
  show ?thesis
    unfolding loadConfig_def cands skip
    using assms(5) d1 d2 k by (simp del: absPath_simps(3))
qed

text \<open>
  From \<open>/tmp/proj/sub/dir\<close> with the configuration in \<open>/tmp/proj\<close>: the key is
  \<open>sub/dir\<close>.
\<close>

theorem loadConfig_key_below_config_witness:
  "loadConfig
     (osWith [''plan''] (\<lambda>_. None)
        (\<lambda>f. if f = ''/tmp/proj/wrapper-config.yml'' then Parsed exampleConfig else NotFound)
        (RunStatus 0 None))
     ''/tmp/proj/sub/dir'' =
   ([ReadTextFile ''/tmp/proj/sub/dir/wrapper-config.yml'',
     ReadTextFile ''/tmp/proj/sub/dir/wrapper-config.yaml'',
     ReadTextFile ''/tmp/proj/sub/wrapper-config.yml'',
     ReadTextFile ''/tmp/proj/sub/wrapper-config.yaml'',
     ReadTextFile ''/tmp/proj/wrapper-config.yml''],
    Inr (Some \<lparr> cfgFile = ''/tmp/proj/wrapper-config.yml'',
                cfgWorkingDir = ''/tmp/proj/sub/dir'',
                cfgKey = ''sub/dir'',
                cfgConfig = exampleConfig \<rparr>))"
proof -
  let ?os = "osWith [''plan''] (\<lambda>_. None)
        (\<lambda>f. if f = ''/tmp/proj/wrapper-config.yml'' then Parsed exampleConfig else NotFound)
        (RunStatus 0 None)"
  have c: "\<forall>s\<in>set ([''tmp'', ''proj''] @ [''sub'', ''dir'']). cleanSeg s"
    by (simp add: cleanSeg_def)
  have cl: "closer [''tmp'', ''proj''] [''sub'', ''dir''] =
      [''/tmp/proj/sub/dir/wrapper-config.yml'', ''/tmp/proj/sub/dir/wrapper-config.yaml'',
       ''/tmp/proj/sub/wrapper-config.yml'', ''/tmp/proj/sub/wrapper-config.yaml'']"
    by (simp add: closer_def)
  have nf: "\<forall>f\<in>set (closer [''tmp'', ''proj''] [''sub'', ''dir'']). readYml ?os f = NotFound"
    unfolding cl by (simp add: osWith_def)
  have v: "configErrors exampleConfig = []"
    by (simp add: configErrors_def exampleConfig_def)
  have rd: "readYml ?os (absPath [''tmp'', ''proj''] @ ''/wrapper-config.yml'') = Parsed exampleConfig"
    by (simp add: osWith_def)
  from loadConfig_key_below_config [OF c _ _ nf v] rd
  show ?thesis unfolding cl by simp
qed

lemma join_root:
  assumes "cleanSeg name"
  shows "join ''/'' name = ''/'' @ name"
proof -
  from assms have ne: "name \<noteq> []" and ns: "CHR ''/'' \<notin> set name" by (simp_all add: cleanSeg_def)
  from splitSlash_no_slash [OF ns] have "splitSlash (''//'' @ name) = [[], [], name]" by simp
  moreover have "normSegments False [] [[], [], name] = [name]"
    using assms by (simp add: cleanSeg_def)
  ultimately have "normalizeString (''//'' @ name) False = name"
    by (simp add: normalizeString_def)
  moreover from last_in_set [OF ne] ns have "last name \<noteq> CHR ''/''" by metis
  ultimately have "normalizePath (''//'' @ name) = ''/'' @ name"
    using ne by (simp add: normalizePath_def isAbsolute_def Let_def)
  with ne show ?thesis by (simp add: join_def)
qed

lemma dirname_under_root:
  assumes "cleanSeg s"
  shows "dirname (''/'' @ s) = ''/''"
proof -
  from assms have s: "CHR ''/'' \<notin> set s" "1 \<le> length s"
    by (auto simp: cleanSeg_def Suc_le_eq)
  from dirnameEnd_through_segment [OF s(1) _ s(2), of "[]" True]
  have "dirnameEnd (''/'' @ s) (length s) True = None" by simp
  then show ?thesis by (simp add: dirname_def)
qed

lemma candidates_root:
  "allPossibleConfigLocation ''/'' = [''/wrapper-config.yml'', ''/wrapper-config.yaml'']"
  by code_simp

lemma candidates_top:
  assumes "cleanSeg s"
  shows "allPossibleConfigLocation (absPath [s]) =
           [absPath [s] @ ''/wrapper-config.yml'', absPath [s] @ ''/wrapper-config.yaml'',
            ''/wrapper-config.yml'', ''/wrapper-config.yaml'']"
proof -
  have cl: "\<forall>t\<in>set [s]. cleanSeg t" using assms by simp
  from assms have "s \<noteq> []" by (simp add: cleanSeg_def)
  then have neq: "''/'' \<noteq> CHR ''/'' # s" by simp
  show ?thesis
    using join_absPath [of "[s]", OF _ cl] dirname_under_root [OF assms] neq
    by (subst allPossibleConfigLocation.simps) (simp add: cleanSeg_names candidates_root)
qed

text \<open>
  The key below a configuration at the root. Let the working directory be
  \<open>/r/r1/.../rn\<close> (clean segments), let no candidate exist in it or in the directories
  above it down to \<open>/r\<close>, and let \<open>/wrapper-config.yml\<close> pass the checks. Then
  \<open>loadConfig\<close> returns that file, and the key is the relative path \<open>r/r1/.../rn\<close>
  without its first character.
\<close>

theorem loadConfig_key_below_root:
  assumes "\<forall>s\<in>set (r # rs). cleanSeg s"
    and "\<forall>f\<in>set (closer [r] rs). readYml os f = NotFound"
    and "readYml os (absPath [r] @ ''/wrapper-config.yml'') = NotFound"
    and "readYml os (absPath [r] @ ''/wrapper-config.yaml'') = NotFound"
    and "readYml os ''/wrapper-config.yml'' = Parsed parsed"
    and "configErrors parsed = []"
  shows "loadConfig os (absPath (r # rs)) =
          (map ReadTextFile
             (closer [r] rs @ [absPath [r] @ ''/wrapper-config.yml'',
                               absPath [r] @ ''/wrapper-config.yaml'',
                               ''/wrapper-config.yml'']),
           Inr (Some \<lparr> cfgFile = ''/wrapper-config.yml'',
                       cfgWorkingDir = absPath (r # rs),
                       cfgKey = tl (joinWith ''/'' (r # rs)),
                       cfgConfig = parsed \<rparr>))"
proof -
  from assms(1) have r: "cleanSeg r" by simp
  have cl: "\<forall>t\<in>set ([r] @ rs). cleanSeg t" using assms(1) by simp
  have cands: "allPossibleConfigLocation (absPath (r # rs)) =
      (closer [r] rs @ [absPath [r] @ ''/wrapper-config.yml'', absPath [r] @ ''/wrapper-config.yaml''])
      @ [''/wrapper-config.yml'', ''/wrapper-config.yaml'']"
    using candidates_closer [OF _ cl] candidates_top [OF r] by simp
  have nf: "\<forall>f\<in>set (closer [r] rs @ [absPath [r] @ ''/wrapper-config.yml'',
                                        absPath [r] @ ''/wrapper-config.yaml'']).
              readYml os f = NotFound"
    using assms(2,3,4) by auto
  have d: "dirname ''/wrapper-config.yml'' = ''/''" by code_simp
  from r have "r \<noteq> []" by (simp add: cleanSeg_def)
  then have k: "drop (Suc (Suc 0)) (absPath (r # rs)) = tl (joinWith ''/'' (r # rs))"
    by (cases r) (simp_all add: joinWith_absPath)
  note skip = loadConfigLoop_skip [OF nf, of "absPath (r # rs)"]
  show ?thesis
    unfolding loadConfig_def cands skip
    using assms(5,6) d k by (simp del: absPath_simps)
qed

text \<open>From \<open>/sub/dir\<close> with the configuration in \<open>/\<close>: the key is \<open>ub/dir\<close>.\<close>

theorem loadConfig_key_below_root_witness:
  "loadConfig
     (osWith [''plan''] (\<lambda>_. None)
        (\<lambda>f. if f = ''/wrapper-config.yml'' then Parsed exampleConfig else NotFound)
        (RunStatus 0 None))
     ''/sub/dir'' =
   ([ReadTextFile ''/sub/dir/wrapper-config.yml'', ReadTextFile ''/sub/dir/wrapper-config.yaml'',
     ReadTextFile ''/sub/wrapper-config.yml'', ReadTextFile ''/sub/wrapper-config.yaml'',
     ReadTextFile ''/wrapper-config.yml''],
    Inr (Some \<lparr> cfgFile = ''/wrapper-config.yml'', cfgWorkingDir = ''/sub/dir'',
                cfgKey = ''ub/dir'', cfgConfig = exampleConfig \<rparr>))"
proof -
  let ?os = "osWith [''plan''] (\<lambda>_. None)
        (\<lambda>f. if f = ''/wrapper-config.yml'' then Parsed exampleConfig else NotFound)
        (RunStatus 0 None)"
  have c: "\<forall>s\<in>set [''sub'', ''dir'']. cleanSeg s"
    by (simp add: cleanSeg_def)
  have cl: "closer [''sub''] [''dir''] =
      [''/sub/dir/wrapper-config.yml'', ''/sub/dir/wrapper-config.yaml'']"
    by (simp add: closer_def)
  have nf: "\<forall>f\<in>set (closer [''sub''] [''dir'']). readYml ?os f = NotFound"
    unfolding cl by (simp add: osWith_def)
  have v: "configErrors exampleConfig = []"
    by (simp add: configErrors_def exampleConfig_def)
  have rd: "readYml ?os (absPath [''sub''] @ ''/wrapper-config.yml'') = NotFound"
           "readYml ?os (absPath [''sub''] @ ''/wrapper-config.yaml'') = NotFound"
           "readYml ?os ''/wrapper-config.yml'' = Parsed exampleConfig"
    by (simp_all add: osWith_def)
  from loadConfig_key_below_root [OF c nf rd v]
  show ?thesis unfolding cl by simp
qed

text \<open>
  The same defect from a directory right below the root: the key is empty, and the
  program ends with the message that the working directory must be below the
  configuration file, which it is.
\<close>

theorem root_config_rejects_child:
  "main (osWith [''plan'', ''-chdir=/a''] (\<lambda>_. None)
           (\<lambda>f. if f = ''/wrapper-config.yml'' then Parsed exampleConfig else NotFound)
           (RunStatus 0 None)) =
   ([ReadTextFile ''/a/wrapper-config.yml'', ReadTextFile ''/a/wrapper-config.yaml'',
     ReadTextFile ''/wrapper-config.yml'',
     ConsoleError ''Working directory must be in subdirectory of config file /wrapper-config.yml''],
    Exit 1)"
  by code_simp

lemma splitSlash_slash_free: "\<forall>s\<in>set (splitSlash p). CHR ''/'' \<notin> set s"
  by (induction p) (auto split: list.splits)

lemma normSegments_cleanSeg:
  "\<forall>s\<in>set res. cleanSeg s \<Longrightarrow> \<forall>s\<in>set segs. CHR ''/'' \<notin> set s \<Longrightarrow>
   \<forall>s\<in>set (normSegments False res segs). cleanSeg s"
proof (induction segs arbitrary: res)
  case Nil
  then show ?case by simp
next
  case (Cons seg segs)
  from Cons.prems(1) have bl: "\<forall>s\<in>set (butlast res). cleanSeg s"
    by (auto dest: in_set_butlastD)
  from Cons.prems have ap: "seg \<noteq> [] \<Longrightarrow> seg \<noteq> ''.'' \<Longrightarrow> seg \<noteq> ''..'' \<Longrightarrow>
      \<forall>s\<in>set (res @ [seg]). cleanSeg s"
    by (auto simp: cleanSeg_def)
  from Cons.prems(2) have tl: "\<forall>s\<in>set segs. CHR ''/'' \<notin> set s" by simp
  show ?case
    using Cons.IH [OF Cons.prems(1) tl] Cons.IH [OF bl tl] Cons.IH [OF ap tl]
    by simp
qed

lemma rooted_absPath:
  assumes "\<forall>s\<in>set segs. cleanSeg s"
  shows "(if joinWith ''/'' segs \<noteq> [] then ''/'' @ joinWith ''/'' segs else ''/'') =
         (if segs = [] then ''/'' else absPath segs)"
proof (cases segs)
  case Nil
  then show ?thesis by simp
next
  case (Cons s ss)
  with assms have "s \<noteq> []" by (simp add: cleanSeg_def)
  with Cons show ?thesis by (simp add: joinWith_absPath)
qed

text \<open>
  The working directory is in normal form. When the argument of \<open>path.resolve\<close> or
  the process's current directory is absolute, the result is \<open>/\<close> or an absolute
  path of clean segments: what the two theorems on the key assume of it.
\<close>

theorem resolve_normal_form:
  assumes "isAbsolute p \<or> isAbsolute cwd"
  shows "\<exists>segs. (\<forall>s\<in>set segs. cleanSeg s) \<and>
                resolve cwd p = (if segs = [] then ''/'' else absPath segs)"
proof -
  define r1 where "r1 = (if p = [] then [] else p @ ''/'')"
  define r2 where "r2 = (if isAbsolute p \<or> cwd = [] then r1 else cwd @ ''/'' @ r1)"
  define segs where "segs = normSegments False [] (splitSlash r2)"
  have cl: "\<forall>s\<in>set segs. cleanSeg s"
    unfolding segs_def by (rule normSegments_cleanSeg) (simp_all add: splitSlash_slash_free)
  have cne: "isAbsolute cwd \<Longrightarrow> cwd \<noteq> []" by (auto simp: isAbsolute_def)
  have "resolve cwd p =
          (if joinWith ''/'' segs \<noteq> [] then ''/'' @ joinWith ''/'' segs else ''/'')"
  proof (cases "isAbsolute p")
    case True
    then show ?thesis
      by (simp add: resolve_def Let_def normalizeString_def segs_def r2_def r1_def)
  next
    case False
    with assms cne have "isAbsolute cwd" "cwd \<noteq> []" by simp_all
    with False show ?thesis
      by (simp add: resolve_def Let_def normalizeString_def segs_def r2_def r1_def)
  qed
  with rooted_absPath [OF cl] cl show ?thesis by metis
qed

text \<open>From \<open>/home/u\<close>, the argument \<open>../x/./y//z/\<close> resolves to \<open>/home/x/y/z\<close>.\<close>

theorem resolve_normal_form_witness:
  "isAbsolute ''/home/u''
   \<and> resolve ''/home/u'' ''../x/./y//z/'' = ''/home/x/y/z''
   \<and> (\<exists>segs. list_all cleanSeg segs \<and>
         resolve ''/home/u'' ''../x/./y//z/'' = (if segs = [] then ''/'' else absPath segs))"
proof -
  have a: "isAbsolute ''/home/u''" by (simp add: isAbsolute_def)
  have r: "resolve ''/home/u'' ''../x/./y//z/'' = ''/home/x/y/z''" by code_simp
  from resolve_normal_form [of "''../x/./y//z/''" "''/home/u''"] a r
  show ?thesis by (simp add: list_all_iff)
qed

subsection \<open>A whole run\<close>

text \<open>
  The scenario of the specification: \<open>-chdir=/tmp/proj/sub\<close>, a configuration at
  \<open>/tmp/proj/wrapper-config.yml\<close> with the rule \<open>sub\<close>. The key is \<open>sub\<close>, the role
  is the rule's, the generated file is written to \<open>/tmp/proj/sub/00_generated.tf\<close>, the
  binary is run with the arguments as given, the file is removed, and the process exits
  with the binary's code.
\<close>

theorem scenario_chdir_sub:
  "\<exists>content.
     generatedContent (getProp exampleConfig ''s3_backend'') ''sub'' ''arn:aws:iam::111:role/x''
       = Some content \<and>
     main (osWith [''plan'', ''-chdir=/tmp/proj/sub''] (\<lambda>_. None)
             (\<lambda>f. if f = ''/tmp/proj/wrapper-config.yml'' then Parsed exampleConfig else NotFound)
             (RunStatus 0 None)) =
     ([ReadTextFile ''/tmp/proj/sub/wrapper-config.yml'',
       ReadTextFile ''/tmp/proj/sub/wrapper-config.yaml'',
       ReadTextFile ''/tmp/proj/wrapper-config.yml'',
       WriteTextFile ''/tmp/proj/sub/00_generated.tf'' content,
       Run [''terraform'', ''plan'', ''-chdir=/tmp/proj/sub''],
       Remove ''/tmp/proj/sub/00_generated.tf''],
      Exit 0)"
proof -
  let ?os = "osWith [''plan'', ''-chdir=/tmp/proj/sub''] (\<lambda>_. None)
             (\<lambda>f. if f = ''/tmp/proj/wrapper-config.yml'' then Parsed exampleConfig else NotFound)
             (RunStatus 0 None)"
  let ?c = "\<lparr> cfgFile = ''/tmp/proj/wrapper-config.yml'', cfgWorkingDir = ''/tmp/proj/sub'',
              cfgKey = ''sub'', cfgConfig = exampleConfig \<rparr>"
  obtain content where gc:
    "generatedContent (getProp exampleConfig ''s3_backend'') ''sub'' ''arn:aws:iam::111:role/x''
       = Some content"
    by (simp add: generatedContent_def exampleConfig_def)
  have wd: "workingDir ?os = Inr ''/tmp/proj/sub''" by code_simp
  have lc: "loadConfig ?os ''/tmp/proj/sub'' =
      ([ReadTextFile ''/tmp/proj/sub/wrapper-config.yml'',
        ReadTextFile ''/tmp/proj/sub/wrapper-config.yaml'',
        ReadTextFile ''/tmp/proj/wrapper-config.yml''], Inr (Some ?c))"
    by code_simp
  have r: "executionRole (cfgFile ?c) (cfgKey ?c) (elements (getProp (cfgConfig ?c) ''execution''))
             = Inr ''arn:aws:iam::111:role/x''"
    by (simp add: executionRole_def exampleConfig_def)
  have j: "join ''/tmp/proj/sub'' ''00_generated.tf'' = ''/tmp/proj/sub/00_generated.tf''"
    by code_simp
  have "withConfig ?os ?c =
     ([WriteTextFile ''/tmp/proj/sub/00_generated.tf'' content,
       Run [''terraform'', ''plan'', ''-chdir=/tmp/proj/sub''],
       Remove ''/tmp/proj/sub/00_generated.tf''],
      Exit 0)"
    using r j gc
    by (simp add: withConfig_def Let_def terraform_def terraformTry_def writeHook_def
                  cleanupHook_def exitWith_def osWith_def)
  with wd lc gc show ?thesis by (simp add: main_def)
qed

text \<open>
  With a configuration, a key, a role and a rendered content, and without
  \<open>TERRAWRAP_NO_CLEANUP\<close>, the effects of the last statement begin with writing the
  generated file and end with removing it, whatever happens in between.
\<close>

theorem withConfig_cleans_up:
  assumes "cfgKey c \<noteq> []"
    and "executionRole (cfgFile c) (cfgKey c) (elements (getProp (cfgConfig c) ''execution'')) = Inr role"
    and "generatedContent (getProp (cfgConfig c) ''s3_backend'') (cfgKey c) role = Some content"
    and "envGet os ''TERRAWRAP_NO_CLEANUP'' \<noteq> Some ''true''"
  shows "\<exists>es. fst (withConfig os c) =
           WriteTextFile (join (cfgWorkingDir c) ''00_generated.tf'') content
           # es @ [Remove (join (cfgWorkingDir c) ''00_generated.tf'')]"
proof -
  let ?f = "join (cfgWorkingDir c) ''00_generated.tf''"
  let ?b = "writeHook os ?f content"
  let ?a = "cleanupHook os ?f"
  have w: "withConfig os c = exitWith (terraform os (Some ?b) (Some ?a))"
    using assms(1,2,3) by (simp add: withConfig_def Let_def)
  have a: "fst ?a = [Remove ?f]" using assms(4) by (simp add: cleanupHook_def)
  obtain eb xb where b: "?b = (eb, xb)" and eb: "eb = [WriteTextFile ?f content]"
    by (simp add: writeHook_def)
  obtain ea xa where a': "?a = (ea, xa)" by (cases ?a)
  with a have ea: "ea = [Remove ?f]" by simp
  have "\<exists>es. fst (terraform os (Some (eb, xb)) (Some (ea, xa))) = eb @ es @ ea"
    by (cases "denoRun os (''terraform'' # denoArgs os)")
       (auto simp: terraform_def terraformTry_def split: option.splits)
  then obtain es where "fst (terraform os (Some ?b) (Some ?a)) = eb @ es @ ea"
    unfolding b a' by blast
  then have "fst (withConfig os c) = eb @ es @ ea"
    unfolding w by (cases "terraform os (Some ?b) (Some ?a)") (auto simp: exitWith_def split: completion.splits)
  with eb ea show ?thesis by simp
qed

text \<open>
  The write fails with \<open>PermissionDenied\<close>: the binary is not run, the file is removed
  all the same, and the error stays uncaught.
\<close>

theorem withConfig_cleans_up_witness:
  "\<exists>content.
     generatedContent (getProp exampleConfig ''s3_backend'') ''sub'' ''arn:aws:iam::111:role/x''
       = Some content \<and>
     withConfig
       ((osWith [''plan''] (\<lambda>_. None) (\<lambda>_. NotFound) (RunStatus 0 None))
          \<lparr> writeTextFile := (\<lambda>_ _. Some ''PermissionDenied'') \<rparr>)
       \<lparr> cfgFile = ''/tmp/proj/wrapper-config.yml'', cfgWorkingDir = ''/tmp/proj/sub'',
         cfgKey = ''sub'', cfgConfig = exampleConfig \<rparr> =
     ([WriteTextFile ''/tmp/proj/sub/00_generated.tf'' content,
       Remove ''/tmp/proj/sub/00_generated.tf''],
      Uncaught ''PermissionDenied'')"
proof -
  let ?os = "(osWith [''plan''] (\<lambda>_. None) (\<lambda>_. NotFound) (RunStatus 0 None))
               \<lparr> writeTextFile := (\<lambda>_ _. Some ''PermissionDenied'') \<rparr>"
  let ?c = "\<lparr> cfgFile = ''/tmp/proj/wrapper-config.yml'', cfgWorkingDir = ''/tmp/proj/sub'',
              cfgKey = ''sub'', cfgConfig = exampleConfig \<rparr>"
  obtain content where gc:
    "generatedContent (getProp (cfgConfig ?c) ''s3_backend'') (cfgKey ?c) ''arn:aws:iam::111:role/x''
       = Some content"
    by (simp add: generatedContent_def exampleConfig_def)
  have k: "cfgKey ?c \<noteq> []" by simp
  have r: "executionRole (cfgFile ?c) (cfgKey ?c) (elements (getProp (cfgConfig ?c) ''execution''))
             = Inr ''arn:aws:iam::111:role/x''"
    by (simp add: executionRole_def exampleConfig_def)
  have e: "envGet ?os ''TERRAWRAP_NO_CLEANUP'' \<noteq> Some ''true''" by (simp add: osWith_def)
  have j: "join (cfgWorkingDir ?c) ''00_generated.tf'' = ''/tmp/proj/sub/00_generated.tf''"
    by code_simp
  from withConfig_cleans_up [OF k r gc e] obtain es where
    tr: "fst (withConfig ?os ?c) =
           WriteTextFile (join (cfgWorkingDir ?c) ''00_generated.tf'') content
           # es @ [Remove (join (cfgWorkingDir ?c) ''00_generated.tf'')]"
    by blast
  have run: "withConfig ?os ?c =
     ([WriteTextFile ''/tmp/proj/sub/00_generated.tf'' content,
       Remove ''/tmp/proj/sub/00_generated.tf''],
      Uncaught ''PermissionDenied'')"
    using r j gc
    by (simp add: withConfig_def Let_def terraform_def terraformTry_def writeHook_def
                  cleanupHook_def exitWith_def osWith_def)
  from tr run gc show ?thesis by simp
qed

end
